theory Spec2Isabelle
  imports Main "HOL-Library.AList"
begin

section \<open>JavaScript values\<close>

text \<open>
  The values the program stores and passes around are JSON-like. A value of type
  \<open>jsval\<close> is a defined JavaScript value; \<open>undefined\<close> is \<open>None\<close> of
  \<open>jsval option\<close>. A number held in a value is an integer (a counter, a millisecond
  timestamp) or NaN.
  An object is its list of own properties in insertion order.
\<close>

datatype jsval =
    JNull
  | JBool bool
  | JNum int
  | JNaN
  | JStr string
  | JArr "jsval list"
  | JObj "(string \<times> jsval) list"

record js_error =
  err_name :: string
  err_message :: string

definition TypeError :: js_error where
  "TypeError = \<lparr>err_name = ''TypeError'', err_message = ''''\<rparr>"

definition SyntaxError :: js_error where
  "SyntaxError = \<lparr>err_name = ''SyntaxError'', err_message = ''''\<rparr>"

definition SecurityError :: js_error where
  "SecurityError = \<lparr>err_name = ''SecurityError'', err_message = ''''\<rparr>"

definition QuotaExceededError :: js_error where
  "QuotaExceededError = \<lparr>err_name = ''QuotaExceededError'', err_message = ''''\<rparr>"

text \<open>Truthiness of a value that may be \<open>undefined\<close>.\<close>

fun truthy :: "jsval option \<Rightarrow> bool" where
  "truthy None = False"
| "truthy (Some JNull) = False"
| "truthy (Some (JBool b)) = b"
| "truthy (Some (JNum n)) = (n \<noteq> 0)"
| "truthy (Some JNaN) = False"
| "truthy (Some (JStr s)) = (s \<noteq> [])"
| "truthy (Some (JArr xs)) = True"
| "truthy (Some (JObj ps)) = True"

text \<open>\<open>a || b\<close>\<close>

definition js_or :: "jsval option \<Rightarrow> jsval option \<Rightarrow> jsval option" where
  "js_or a b = (if truthy a then a else b)"

text \<open>
  \<open>a === b\<close>. Arrays and objects are compared by reference; a value that comes out of
  \<open>JSON.parse\<close> is a fresh reference, so two such values are never identical.
\<close>

definition strict_eq :: "jsval option \<Rightarrow> jsval option \<Rightarrow> bool" where
  "strict_eq a b =
     (case a of
        None \<Rightarrow> b = None
      | Some JNull \<Rightarrow> b = Some JNull
      | Some (JBool x) \<Rightarrow> b = Some (JBool x)
      | Some (JNum x) \<Rightarrow> b = Some (JNum x)
      | Some JNaN \<Rightarrow> False
      | Some (JStr x) \<Rightarrow> b = Some (JStr x)
      | Some (JArr xs) \<Rightarrow> False
      | Some (JObj ps) \<Rightarrow> False)"

text \<open>
  Reading a named property \<open>v.k\<close>: a TypeError on \<open>null\<close>, the property of an object,
  \<open>undefined\<close> on every other value (the names read by the program are never
  \<open>length\<close> or an index).
\<close>

fun get_prop :: "jsval \<Rightarrow> string \<Rightarrow> js_error + jsval option" where
  "get_prop JNull k = Inl TypeError"
| "get_prop (JObj ps) k = Inr (map_of ps k)"
| "get_prop _ k = Inr None"

subsection \<open>Numbers and strings\<close>

definition digit_char :: "nat \<Rightarrow> char" where
  "digit_char d = char_of (48 + d)"

fun show_nat :: "nat \<Rightarrow> string" where
  "show_nat n = (if n < 10 then [digit_char n] else show_nat (n div 10) @ [digit_char (n mod 10)])"

definition show_int :: "int \<Rightarrow> string" where
  "show_int i = (if i < 0 then CHR ''-'' # show_nat (nat (- i)) else show_nat (nat i))"

text \<open>\<open>String(s).padStart(2, '0')\<close>\<close>

definition padStart2 :: "string \<Rightarrow> string" where
  "padStart2 s = replicate (2 - length s) CHR ''0'' @ s"

text \<open>
  A string is its list of code units, of which the type \<open>char\<close> holds those below 256.
  Of the white space and line terminators of the language, these are the tab, the line
  feed, the vertical tab, the form feed, the carriage return, the space and the no-break
  space U+00A0 (the others, U+1680, U+2000 to U+200A, U+2028, U+2029, U+202F, U+205F,
  U+3000 and U+FEFF, are code units above 255).
\<close>

definition is_space :: "char \<Rightarrow> bool" where
  "is_space c =
     (c \<in> set [CHR 0x09, CHR 0x0A, CHR 0x0B, CHR 0x0C, CHR 0x0D, CHR 0x20, CHR 0xA0])"

text \<open>\<open>s.trim()\<close>\<close>

definition trim :: "string \<Rightarrow> string" where
  "trim s = rev (dropWhile is_space (rev (dropWhile is_space s)))"

fun join_comma :: "string list \<Rightarrow> string" where
  "join_comma [] = []"
| "join_comma [s] = s"
| "join_comma (s # t # ss) = s @ '','' @ join_comma (t # ss)"

text \<open>The results of a list of steps run from left to right, or the first error.\<close>

fun in_order :: "('e + 'a) list \<Rightarrow> 'e + 'a list" where
  "in_order [] = Inr []"
| "in_order (x # xs) =
     (case x of
        Inl e \<Rightarrow> Inl e
      | Inr v \<Rightarrow> (case in_order xs of Inl e \<Rightarrow> Inl e | Inr vs \<Rightarrow> Inr (v # vs)))"

text \<open>
  The string a value is converted to (\<open>String(v)\<close>, and the primitive that \<open>+\<close> and the
  comparisons take of an array or an object). A number is written in decimal digits. An
  array joins its elements with commas, \<open>null\<close> giving the empty string. An object answers
  \<open>[object Object]\<close> through the \<open>toString\<close> it inherits; an own property named
  \<open>toString\<close> hides that method and, being data, cannot be called: the conversion then
  throws a TypeError.
\<close>

fun ToString :: "jsval \<Rightarrow> js_error + string" where
  "ToString JNull = Inr ''null''"
| "ToString (JBool b) = Inr (if b then ''true'' else ''false'')"
| "ToString (JNum n) = Inr (show_int n)"
| "ToString JNaN = Inr ''NaN''"
| "ToString (JStr s) = Inr s"
| "ToString (JArr xs) =
     (case in_order (map (\<lambda>x. if x = JNull then Inr [] else ToString x) xs) of
        Inl e \<Rightarrow> Inl e
      | Inr ss \<Rightarrow> Inr (join_comma ss))"
| "ToString (JObj ps) =
     (if map_of ps ''toString'' = None then Inr ''[object Object]'' else Inl TypeError)"

text \<open>
  The result of a conversion to a number: an integer, NaN, or a number that is not an
  integer. \<open>Fraction m e\<close> is \<open>m / 2 ^ e\<close>; every finite number of the language is such a
  fraction.
\<close>

datatype noninteger = Fraction int nat | PlusInfinity | MinusInfinity

datatype jsnum = Num int | NaN | Other noninteger

text \<open>\<open>d >= n\<close> for a number \<open>d\<close> that is not an integer and an integer \<open>n\<close>\<close>

fun noninteger_ge :: "noninteger \<Rightarrow> int \<Rightarrow> bool" where
  "noninteger_ge (Fraction m e) n = (n * 2 ^ e \<le> m)"
| "noninteger_ge PlusInfinity n = True"
| "noninteger_ge MinusInfinity n = False"

subsection \<open>The runtime\<close>

text \<open>
  What the program takes from the JavaScript runtime it runs in.

  The clock: the local calendar day (\<open>getMonth\<close> counts from 0), \<open>Date.now()\<close>,
  \<open>new Date().toISOString()\<close> and \<open>new Date(x).toLocaleTimeString()\<close>.

  Two operations of the language on numbers, which are taken as they are given:
  \<open>StringToNumber s\<close> is the number that the string \<open>s\<close> denotes (between white
  space, the language reads decimal, hexadecimal, octal and binary literals, fractions,
  exponents and \<open>Infinity\<close>, and nothing as 0; every other text is NaN), and
  \<open>number_minus n d\<close> is the difference \<open>n - d\<close> of an integer and a number that is not
  an integer, rounded as the language rounds.
\<close>

record runtime =
  getFullYear :: int
  getMonth :: nat
  getDate :: nat
  Date_now :: int
  toISOString :: string
  toLocaleTimeString :: "jsval option \<Rightarrow> string"
  StringToNumber :: "string \<Rightarrow> jsnum"
  number_minus :: "int \<Rightarrow> noninteger \<Rightarrow> jsnum"

text \<open>
  The number a value is converted to. An array and an object are converted to a string
  first (\<open>[object Object]\<close> denotes no number).
\<close>

fun ToNumber :: "runtime \<Rightarrow> jsval option \<Rightarrow> js_error + jsnum" where
  "ToNumber rt None = Inr NaN"
| "ToNumber rt (Some JNull) = Inr (Num 0)"
| "ToNumber rt (Some (JBool b)) = Inr (Num (if b then 1 else 0))"
| "ToNumber rt (Some (JNum n)) = Inr (Num n)"
| "ToNumber rt (Some JNaN) = Inr NaN"
| "ToNumber rt (Some (JStr s)) = Inr (StringToNumber rt s)"
| "ToNumber rt (Some (JArr xs)) =
     (case ToString (JArr xs) of Inl e \<Rightarrow> Inl e | Inr s \<Rightarrow> Inr (StringToNumber rt s))"
| "ToNumber rt (Some (JObj ps)) =
     (case ToString (JObj ps) of Inl e \<Rightarrow> Inl e | Inr s \<Rightarrow> Inr NaN)"

text \<open>\<open>x >= n\<close> for a number \<open>n\<close>\<close>

definition js_ge_num :: "runtime \<Rightarrow> jsval option \<Rightarrow> int \<Rightarrow> js_error + bool" where
  "js_ge_num rt x n =
     (case ToNumber rt x of
        Inl e \<Rightarrow> Inl e
      | Inr y \<Rightarrow> Inr (case y of Num k \<Rightarrow> k \<ge> n | NaN \<Rightarrow> False | Other d \<Rightarrow> noninteger_ge d n))"



text \<open>
  \<open>x + n\<close> for a number \<open>n\<close>: concatenation when \<open>x\<close> is a string, an array or an
  object, addition otherwise.
\<close>

fun js_plus_num :: "jsval option \<Rightarrow> int \<Rightarrow> js_error + jsval" where
  "js_plus_num None n = Inr JNaN"
| "js_plus_num (Some JNull) n = Inr (JNum n)"
| "js_plus_num (Some (JBool b)) n = Inr (JNum ((if b then 1 else 0) + n))"
| "js_plus_num (Some (JNum k)) n = Inr (JNum (k + n))"
| "js_plus_num (Some JNaN) n = Inr JNaN"
| "js_plus_num (Some (JStr s)) n = Inr (JStr (s @ show_int n))"
| "js_plus_num (Some (JArr xs)) n =
     (case ToString (JArr xs) of Inl e \<Rightarrow> Inl e | Inr s \<Rightarrow> Inr (JStr (s @ show_int n)))"
| "js_plus_num (Some (JObj ps)) n =
     (case ToString (JObj ps) of Inl e \<Rightarrow> Inl e | Inr s \<Rightarrow> Inr (JStr (s @ show_int n)))"

text \<open>The own enumerable properties that \<open>{...v}\<close> copies.\<close>

fun own_props :: "jsval \<Rightarrow> (string \<times> jsval) list" where
  "own_props (JObj ps) = ps"
| "own_props (JArr xs) = zip (map show_nat [0..<length xs]) xs"
| "own_props (JStr s) = zip (map show_nat [0..<length s]) (map (\<lambda>c. JStr [c]) s)"
| "own_props _ = []"

subsection \<open>JSON text\<close>

text \<open>
  A stored string is represented by what \<open>JSON.parse\<close> makes of it: \<open>Ser v\<close> is a
  text that parses to \<open>v\<close> (the text \<open>JSON.stringify\<close> writes for \<open>v\<close>), and
  \<open>NotJson s\<close> is a text \<open>s\<close> that \<open>JSON.parse\<close> rejects; \<open>NotJson []\<close> is
  the empty string, the one stored string that is falsy.
\<close>

datatype stored_text = NotJson string | Ser jsval

text \<open>\<open>JSON.stringify\<close> writes NaN as \<open>null\<close>.\<close>

fun to_json :: "jsval \<Rightarrow> jsval" where
  "to_json JNaN = JNull"
| "to_json (JArr xs) = JArr (map to_json xs)"
| "to_json (JObj ps) = JObj (map (\<lambda>(k, v). (k, to_json v)) ps)"
| "to_json v = v"

definition JSON_stringify :: "jsval \<Rightarrow> stored_text" where
  "JSON_stringify v = Ser (to_json v)"

fun JSON_parse :: "stored_text \<Rightarrow> js_error + jsval" where
  "JSON_parse (NotJson s) = Inl SyntaxError"
| "JSON_parse (Ser v) = Inr v"

section \<open>Local Store (storage.js)\<close>

text \<open>
  The browser's \<open>localStorage\<close>: the stored strings by key, and whether the backend
  lets the page read and write. A read of an unavailable backend throws; so does a write
  that the backend refuses (storage disabled, quota exceeded).
\<close>

record local_storage =
  items :: "string \<Rightarrow> stored_text option"
  can_read :: bool
  can_write :: bool

definition getItem :: "local_storage \<Rightarrow> string \<Rightarrow> js_error + stored_text option" where
  "getItem ls k = (if can_read ls then Inr (items ls k) else Inl SecurityError)"

definition setItem :: "local_storage \<Rightarrow> string \<Rightarrow> stored_text \<Rightarrow> js_error + local_storage" where
  "setItem ls k t =
     (if can_write ls then Inr (ls\<lparr>items := (items ls)(k \<mapsto> t)\<rparr>) else Inl QuotaExceededError)"

definition CHAT_HISTORY :: string where
  "CHAT_HISTORY = ''ryunex_chat_history''"

definition DAILY_USAGE :: string where
  "DAILY_USAGE = ''ryunex_daily_usage''"

definition CURRENT_CHAT_ID :: string where
  "CURRENT_CHAT_ID = ''ryunex_current_chat_id''"

definition MAX_DAILY_MESSAGES :: int where
  "MAX_DAILY_MESSAGES = 25"

definition getTodayDateString :: "runtime \<Rightarrow> string" where
  "getTodayDateString now =
     show_int (getFullYear now) @ ''-'' @ padStart2 (show_nat (getMonth now + 1)) @ ''-''
       @ padStart2 (show_nat (getDate now))"

definition isNewDay :: "runtime \<Rightarrow> jsval option \<Rightarrow> bool" where
  "isNewDay now lastDateString = (\<not> strict_eq lastDateString (Some (JStr (getTodayDateString now))))"

text \<open>The object \<open>{ count: 0, date: getTodayDateString() }\<close>\<close>

definition fresh_usage :: "runtime \<Rightarrow> jsval" where
  "fresh_usage now = JObj [(''count'', JNum 0), (''date'', JStr (getTodayDateString now))]"

text \<open>The \<open>try\<close> block of \<open>getDailyUsage\<close>: the value it returns and the store it leaves, or the error it throws.\<close>

definition getDailyUsage_try :: "runtime \<Rightarrow> local_storage \<Rightarrow> js_error + jsval \<times> local_storage" where
  "getDailyUsage_try now ls =
     (case getItem ls DAILY_USAGE of
        Inl e \<Rightarrow> Inl e
      | Inr None \<Rightarrow> Inr (fresh_usage now, ls)
      | Inr (Some stored) \<Rightarrow>
          if stored = NotJson [] then Inr (fresh_usage now, ls)
          else
            (case JSON_parse stored of
               Inl e \<Rightarrow> Inl e
             | Inr usage \<Rightarrow>
                 (case get_prop usage ''date'' of
                    Inl e \<Rightarrow> Inl e
                  | Inr d \<Rightarrow>
                      if isNewDay now d then
                        (let newUsage = fresh_usage now in
                         case setItem ls DAILY_USAGE (JSON_stringify newUsage) of
                           Inl e \<Rightarrow> Inl e
                         | Inr ls' \<Rightarrow> Inr (newUsage, ls'))
                      else Inr (usage, ls))))"

definition getDailyUsage :: "runtime \<Rightarrow> local_storage \<Rightarrow> jsval \<times> local_storage" where
  "getDailyUsage now ls =
     (case getDailyUsage_try now ls of
        Inr r \<Rightarrow> r
      | Inl e \<Rightarrow> (fresh_usage now, ls))"

text \<open>
  \<open>incrementDailyUsage\<close>: every step is inside the \<open>try\<close>; the \<open>catch\<close> returns the
  fresh record and leaves the store as \<open>getDailyUsage\<close> left it.
\<close>

definition incrementDailyUsage :: "runtime \<Rightarrow> local_storage \<Rightarrow> jsval \<times> local_storage" where
  "incrementDailyUsage now ls =
     (case getDailyUsage now ls of
        (usage, ls1) \<Rightarrow>
          (case get_prop usage ''count'' of
             Inl e \<Rightarrow> (fresh_usage now, ls1)
           | Inr c \<Rightarrow>
               (case js_plus_num c 1 of
                  Inl e \<Rightarrow> (fresh_usage now, ls1)
                | Inr c1 \<Rightarrow>
                    (let newUsage = JObj (AList.update ''count'' c1 (own_props usage)) in
                     case setItem ls1 DAILY_USAGE (JSON_stringify newUsage) of
                       Inl e \<Rightarrow> (fresh_usage now, ls1)
                     | Inr ls2 \<Rightarrow> (newUsage, ls2)))))"

text \<open>
  \<open>isDailyLimitReached\<close> and \<open>getRemainingMessages\<close> have no \<open>try\<close> of their own:
  an error of the comparison or of the subtraction leaves them. Such an error comes of a
  count read from the store, never of the fresh record, so that no write is behind it.
\<close>

definition isDailyLimitReached :: "runtime \<Rightarrow> local_storage \<Rightarrow> js_error + bool \<times> local_storage" where
  "isDailyLimitReached now ls =
     (case getDailyUsage now ls of
        (usage, ls1) \<Rightarrow>
          (case get_prop usage ''count'' of
             Inl e \<Rightarrow> Inl e
           | Inr c \<Rightarrow>
               (case js_ge_num now c MAX_DAILY_MESSAGES of
                  Inl e \<Rightarrow> Inl e
                | Inr b \<Rightarrow> Inr (b, ls1))))"


definition getChatHistory_try :: "local_storage \<Rightarrow> js_error + jsval" where
  "getChatHistory_try ls =
     (case getItem ls CHAT_HISTORY of
        Inl e \<Rightarrow> Inl e
      | Inr None \<Rightarrow> Inr (JArr [])
      | Inr (Some stored) \<Rightarrow>
          if stored = NotJson [] then Inr (JArr [])
          else JSON_parse stored)"

definition getChatHistory :: "local_storage \<Rightarrow> jsval" where
  "getChatHistory ls =
     (case getChatHistory_try ls of
        Inr chats \<Rightarrow> chats
      | Inl e \<Rightarrow> JArr [])"

definition saveChatHistory :: "jsval \<Rightarrow> local_storage \<Rightarrow> local_storage" where
  "saveChatHistory chats ls =
     (case setItem ls CHAT_HISTORY (JSON_stringify chats) of
        Inr ls' \<Rightarrow> ls'
      | Inl e \<Rightarrow> ls)"

definition getCurrentChatId :: "local_storage \<Rightarrow> stored_text option" where
  "getCurrentChatId ls =
     (case getItem ls CURRENT_CHAT_ID of
        Inr stored \<Rightarrow> stored
      | Inl e \<Rightarrow> None)"

text \<open>Chat ids are numbers (\<open>Date.now()\<close>); \<open>String(chatId)\<close> is the decimal text of the number.\<close>

definition saveCurrentChatId :: "int \<Rightarrow> local_storage \<Rightarrow> local_storage" where
  "saveCurrentChatId chatId ls =
     (case setItem ls CURRENT_CHAT_ID (Ser (JNum chatId)) of
        Inr ls' \<Rightarrow> ls'
      | Inl e \<Rightarrow> ls)"

subsection \<open>Conversations\<close>

text \<open>\<open>chats.findIndex(c => c.id === chatId)\<close> on the elements of an array, counting from \<open>i\<close>.\<close>

fun findIndex_id :: "int \<Rightarrow> jsval list \<Rightarrow> nat \<Rightarrow> js_error + nat option" where
  "findIndex_id chatId [] i = Inr None"
| "findIndex_id chatId (c # cs) i =
     (case get_prop c ''id'' of
        Inl e \<Rightarrow> Inl e
      | Inr v \<Rightarrow> if strict_eq v (Some (JNum chatId)) then Inr (Some i) else findIndex_id chatId cs (Suc i))"

text \<open>\<open>chats.find(c => c.id === chatId)\<close>\<close>

fun find_id :: "int \<Rightarrow> jsval list \<Rightarrow> js_error + jsval option" where
  "find_id chatId [] = Inr None"
| "find_id chatId (c # cs) =
     (case get_prop c ''id'' of
        Inl e \<Rightarrow> Inl e
      | Inr v \<Rightarrow> if strict_eq v (Some (JNum chatId)) then Inr (Some c) else find_id chatId cs)"

text \<open>\<open>messages.find(m => m.role === 'user')\<close>\<close>

fun find_user :: "jsval list \<Rightarrow> js_error + jsval option" where
  "find_user [] = Inr None"
| "find_user (m # ms) =
     (case get_prop m ''role'' of
        Inl e \<Rightarrow> Inl e
      | Inr r \<Rightarrow> if strict_eq r (Some (JStr ''user'')) then Inr (Some m) else find_user ms)"

text \<open>
  \<open>c.k = v\<close> on the element of the parsed array whose id matched. The element is an
  object, since only an object has an \<open>id\<close>; on \<open>null\<close> and on a primitive the
  assignment is a TypeError (module code is strict).
\<close>

fun set_prop :: "jsval \<Rightarrow> string \<Rightarrow> jsval \<Rightarrow> js_error + jsval" where
  "set_prop (JObj ps) k v = Inr (JObj (AList.update k v ps))"
| "set_prop _ k v = Inl TypeError"

text \<open>\<open>t.startsWith(p)\<close>: only a string has the method.\<close>

fun startsWith :: "jsval option \<Rightarrow> string \<Rightarrow> js_error + bool" where
  "startsWith (Some (JStr s)) p = Inr (take (length p) s = p)"
| "startsWith _ p = Inl TypeError"

text \<open>\<open>v.slice(0, n)\<close>: strings and arrays have the method.\<close>

fun slice0 :: "jsval option \<Rightarrow> nat \<Rightarrow> js_error + jsval" where
  "slice0 (Some (JStr s)) n = Inr (JStr (take n s))"
| "slice0 (Some (JArr xs)) n = Inr (JArr (take n xs))"
| "slice0 _ n = Inl TypeError"

text \<open>
  The title update of \<open>updateChatMessages\<close>, on the conversation \<open>c\<close> that already
  carries the new messages.
\<close>

definition update_title :: "runtime \<Rightarrow> jsval list \<Rightarrow> jsval \<Rightarrow> js_error + jsval" where
  "update_title now messages c =
     (case get_prop c ''title'' of
        Inl e \<Rightarrow> Inl e
      | Inr t \<Rightarrow>
          (case (if \<not> truthy t then Inr True else startsWith t ''New Chat'') of
             Inl e \<Rightarrow> Inl e
           | Inr False \<Rightarrow> Inr c
           | Inr True \<Rightarrow>
               (case find_user messages of
                  Inl e \<Rightarrow> Inl e
                | Inr None \<Rightarrow> Inr c
                | Inr (Some firstUserMessage) \<Rightarrow>
                    (case get_prop firstUserMessage ''text'' of
                       Inl e \<Rightarrow> Inl e
                     | Inr txt \<Rightarrow>
                         (case (if truthy txt then Inr txt else get_prop firstUserMessage ''content'') of
                            Inl e \<Rightarrow> Inl e
                          | Inr tc \<Rightarrow>
                              (case slice0 (js_or tc (Some (JStr []))) 50 of
                                 Inl e \<Rightarrow> Inl e
                               | Inr title \<Rightarrow>
                                   if truthy (Some title) then set_prop c ''title'' title
                                   else
                                     (case get_prop c ''createdAt'' of
                                        Inl e \<Rightarrow> Inl e
                                      | Inr created \<Rightarrow>
                                          set_prop c ''title''
                                            (JStr (''Chat '' @ toLocaleTimeString now created)))))))))"

text \<open>
  \<open>updateChatMessages\<close> has no \<open>try\<close>: it returns the store it leaves, or the error it
  throws. \<open>findIndex\<close> is a method of arrays only.
\<close>

definition updateChatMessages ::
  "runtime \<Rightarrow> int \<Rightarrow> jsval list \<Rightarrow> local_storage \<Rightarrow> js_error + local_storage" where
  "updateChatMessages now chatId messages ls =
     (case getChatHistory ls of
        JArr chats \<Rightarrow>
          (case findIndex_id chatId chats 0 of
             Inl e \<Rightarrow> Inl e
           | Inr None \<Rightarrow> Inr ls
           | Inr (Some chatIndex) \<Rightarrow>
               (case set_prop (chats ! chatIndex) ''messages'' (JArr messages) of
                  Inl e \<Rightarrow> Inl e
                | Inr c \<Rightarrow>
                    (case update_title now messages c of
                       Inl e \<Rightarrow> Inl e
                     | Inr c' \<Rightarrow> Inr (saveChatHistory (JArr (chats[chatIndex := c'])) ls))))
      | _ \<Rightarrow> Inl TypeError)"

definition getChatById :: "int \<Rightarrow> local_storage \<Rightarrow> js_error + jsval option" where
  "getChatById chatId ls =
     (case getChatHistory ls of
        JArr chats \<Rightarrow> find_id chatId chats
      | _ \<Rightarrow> Inl TypeError)"

section \<open>Failover Model Client (api.js)\<close>

subsection \<open>The provider\<close>

definition AbortError :: js_error where
  "AbortError = \<lparr>err_name = ''AbortError'', err_message = ''Aborted''\<rparr>"

text \<open>
  What the provider does on one attempt. \<open>sent\<close> is the SDK call: \<open>Inl e\<close> when
  building the client or sending the prompt throws \<open>e\<close>; \<open>Inr r\<close> when the send
  resolves, with \<open>r\<close> what reading the response text then does (throws, or gives the
  text). The two flags are \<open>signal?.aborted\<close> as read after the send resolved and as
  read in the \<open>catch\<close>.
\<close>

record attempt =
  sent :: "js_error + (js_error + string)"
  aborted_after_send :: bool
  aborted_in_catch :: bool

text \<open>
  The four texts of \<open>SYSTEM_PROMPTS\<close>, by name; \<open>Inherited k\<close> is the value of a
  property \<open>k\<close> that the table inherits and does not define.
\<close>

datatype system_prompt = SolancePrompt | ChillPrompt | StudentPrompt | CoderPrompt | Inherited string

text \<open>An entry of the history in the provider's format: \<open>{ role, parts: [{ text }] }\<close>.\<close>

record content =
  role :: string
  parts :: "jsval option list"

text \<open>A request as the SDK receives it: the key, the model, the system instruction, and
  either a chat with a history (\<open>startChat\<close>, \<open>sendMessage\<close>) or a bare prompt
  (\<open>generateContent\<close>).\<close>

record request =
  req_keyIndex :: nat
  req_apiKey :: "string option"
  req_model :: string
  req_systemInstruction :: "system_prompt option"
  req_multiTurn :: bool
  req_history :: "content list"
  req_prompt :: string

subsection \<open>GeminiManager\<close>

record gemini_manager =
  apiKeys :: "string list"
  modelName :: string
  currentKeyIndex :: nat

text \<open>The constructor throws on an empty key list.\<close>

definition GeminiManager :: "string list \<Rightarrow> string \<Rightarrow> js_error + gemini_manager" where
  "GeminiManager keys model =
     (if length keys = 0
      then Inl \<lparr>err_name = ''Error'', err_message = ''GeminiManager: At least one API key is required.''\<rparr>
      else Inr \<lparr>apiKeys = keys, modelName = model, currentKeyIndex = 0\<rparr>)"

record gen_options =
  opt_history :: "content list"
  opt_systemInstruction :: "system_prompt option"
  opt_modelName :: "string option"

definition FALLBACK :: string where
  "FALLBACK = ''Server is busy, please talk to owner of RYUNEX''"

text \<open>The body of the \<open>try\<close> of one attempt: the text it returns or the error it throws.\<close>

definition try_body :: "attempt \<Rightarrow> js_error + string" where
  "try_body a =
     (case sent a of
        Inl e \<Rightarrow> Inl e
      | Inr r \<Rightarrow> if aborted_after_send a then Inl AbortError else r)"

definition make_request :: "gemini_manager \<Rightarrow> gen_options \<Rightarrow> string \<Rightarrow> request" where
  "make_request m opts prompt =
     \<lparr>req_keyIndex = currentKeyIndex m,
      req_apiKey = (if currentKeyIndex m < length (apiKeys m)
                    then Some (apiKeys m ! currentKeyIndex m) else None),
      req_model = (case opt_modelName opts of
                     Some n \<Rightarrow> if n \<noteq> [] then n else modelName m
                   | None \<Rightarrow> modelName m),
      req_systemInstruction = opt_systemInstruction opts,
      req_multiTurn = (length (opt_history opts) > 0),
      req_history = opt_history opts,
      req_prompt = prompt\<rparr>"

text \<open>
  The \<open>while (attempts < totalKeys)\<close> loop of \<open>generateResponse\<close>. It returns what
  \<open>generateResponse\<close> returns (\<open>Inr\<close>) or throws (\<open>Inl\<close>), the manager it leaves, and
  the requests it issued, in order. In the \<open>catch\<close>, \<open>currentKey.slice(-4)\<close> is a TypeError
  when the key is \<open>undefined\<close>. After the loop, \<open>_handleTotalFailure\<close> raises the owner's
  alerts (console, browser notification, custom event), which change neither the manager
  nor the returned value.
\<close>

function generateResponse_loop ::
  "(nat \<Rightarrow> attempt) \<Rightarrow> gen_options \<Rightarrow> string \<Rightarrow> nat \<Rightarrow> gemini_manager
     \<Rightarrow> (js_error + string) \<times> gemini_manager \<times> request list"
where
  "generateResponse_loop provider opts prompt attempts m =
     (let totalKeys = length (apiKeys m) in
      if attempts < totalKeys then
        (let req = make_request m opts prompt in
         case try_body (provider attempts) of
           Inr text \<Rightarrow> (Inr text, m, [req])
         | Inl e \<Rightarrow>
             if err_name e = ''AbortError'' \<or> aborted_in_catch (provider attempts)
             then (Inl e, m, [req])
             else if req_apiKey req = None then (Inl TypeError, m, [req])
             else
               (case generateResponse_loop provider opts prompt (attempts + 1)
                       (m\<lparr>currentKeyIndex := (currentKeyIndex m + 1) mod totalKeys\<rparr>) of
                  (r, m', reqs) \<Rightarrow> (r, m', req # reqs)))
      else (Inr FALLBACK, m, []))"
  by pat_completeness auto
termination
  by (relation "measure (\<lambda>(provider, opts, prompt, attempts, m). length (apiKeys m) - attempts)") auto

definition generateResponse ::
  "(nat \<Rightarrow> attempt) \<Rightarrow> gen_options \<Rightarrow> string \<Rightarrow> gemini_manager
     \<Rightarrow> (js_error + string) \<times> gemini_manager \<times> request list" where
  "generateResponse provider opts prompt m = generateResponse_loop provider opts prompt 0 m"

subsection \<open>callGeminiAPI\<close>

text \<open>
  \<open>SYSTEM_PROMPTS[mode] || SYSTEM_PROMPTS.Student\<close>: the table has four own
  properties; every other name that the lookup finds is one that the table inherits from
  \<open>Object.prototype\<close>, whose value is a function or an object, hence truthy.
\<close>

definition Object_prototype_names :: "string list" where
  "Object_prototype_names =
     [''constructor'', ''hasOwnProperty'', ''isPrototypeOf'', ''propertyIsEnumerable'',
      ''toLocaleString'', ''toString'', ''valueOf'', ''__defineGetter__'', ''__defineSetter__'',
      ''__lookupGetter__'', ''__lookupSetter__'', ''__proto__'']"

definition getSystemPrompt :: "string \<Rightarrow> system_prompt" where
  "getSystemPrompt mode =
     (if mode = ''Solance'' then SolancePrompt
      else if mode = ''Chill'' then ChillPrompt
      else if mode = ''Student'' then StudentPrompt
      else if mode = ''Coder'' then CoderPrompt
      else if mode \<in> set Object_prototype_names then Inherited mode
      else StudentPrompt)"

definition MODELS_DEFAULT :: string where
  "MODELS_DEFAULT = ''gemini-2.5-flash''"

definition MODELS_CODER :: string where
  "MODELS_CODER = ''gemini-2.5-flash''"

text \<open>
  The callback of \<open>conversationHistory.map\<close>:
  \<open>msg => ({ role: msg.role === 'ai' ? 'model' : 'user', parts: [{ text: msg.text || msg.content }] })\<close>
\<close>

definition to_content :: "jsval \<Rightarrow> js_error + content" where
  "to_content msg =
     (case get_prop msg ''role'' of
        Inl e \<Rightarrow> Inl e
      | Inr r \<Rightarrow>
          (case get_prop msg ''text'' of
             Inl e \<Rightarrow> Inl e
           | Inr t \<Rightarrow>
               (case (if truthy t then Inr t else get_prop msg ''content'') of
                  Inl e \<Rightarrow> Inl e
                | Inr tc \<Rightarrow>
                    Inr \<lparr>role = (if strict_eq r (Some (JStr ''ai'')) then ''model'' else ''user''),
                         parts = [tc]\<rparr>)))"

fun map_history :: "jsval list \<Rightarrow> js_error + content list" where
  "map_history [] = Inr []"
| "map_history (msg # rest) =
     (case to_content msg of
        Inl e \<Rightarrow> Inl e
      | Inr c \<Rightarrow>
          (case map_history rest of
             Inl e \<Rightarrow> Inl e
           | Inr cs \<Rightarrow> Inr (c # cs)))"

fun str_includes :: "string \<Rightarrow> string \<Rightarrow> bool" where
  "str_includes [] p = (p = [])"
| "str_includes (c # s) p = (take (length p) (c # s) = p \<or> str_includes s p)"

record api_result =
  success :: bool
  res_text :: string
  modelUsed :: "string option"
  isCancelled :: bool

text \<open>
  The provider as one call of \<open>callGeminiAPI\<close> sees it: the attempts, and
  \<open>signal?.aborted\<close> as read in the \<open>catch\<close> of \<open>callGeminiAPI\<close>.
\<close>

record provider =
  nth_attempt :: "nat \<Rightarrow> attempt"
  aborted_finally :: bool

text \<open>The \<open>catch\<close> of \<open>callGeminiAPI\<close>.\<close>

definition api_catch :: "provider \<Rightarrow> js_error \<Rightarrow> api_result" where
  "api_catch p error =
     (if err_name error = ''AbortError'' \<or> aborted_finally p
      then \<lparr>success = False, res_text = ''Request cancelled'', modelUsed = None, isCancelled = True\<rparr>
      else \<lparr>success = False,
            res_text = (if str_includes (err_message error) ''429''
                        then ''I'' @ [CHR 0x27] @ ''m receiving too many requests right now. Please try again in a moment.''
                        else ''An error occurred with Gemini API.''),
            modelUsed = None, isCancelled = False\<rparr>)"

definition callGeminiAPI ::
  "provider \<Rightarrow> string \<Rightarrow> string \<Rightarrow> jsval list \<Rightarrow> gemini_manager
     \<Rightarrow> api_result \<times> gemini_manager \<times> request list" where
  "callGeminiAPI p message mode conversationHistory m =
     (let systemPrompt = getSystemPrompt mode;
          modelName = (if mode = ''Coder'' then MODELS_CODER else MODELS_DEFAULT) in
      case map_history conversationHistory of
        Inl e \<Rightarrow> (api_catch p e, m, [])
      | Inr history \<Rightarrow>
          (case generateResponse (nth_attempt p)
                  \<lparr>opt_history = history, opt_systemInstruction = Some systemPrompt,
                   opt_modelName = Some modelName\<rparr> message m of
             (Inl e, m', reqs) \<Rightarrow> (api_catch p e, m', reqs)
           | (Inr text, m', reqs) \<Rightarrow>
               if text = FALLBACK
               then (\<lparr>success = False, res_text = text, modelUsed = None, isCancelled = False\<rparr>, m', reqs)
               else (\<lparr>success = True, res_text = text, modelUsed = Some modelName, isCancelled = False\<rparr>,
                     m', reqs)))"

section \<open>Conversation Orchestrator (MainChat.jsx)\<close>

text \<open>
  The state of the component: its React state and the \<open>abortControllerRef\<close>
  (\<open>None\<close> for \<open>null\<close>, \<open>Some b\<close> for a controller whose signal has
  \<open>aborted = b\<close>).
\<close>

record main_chat =
  messages :: "jsval list"
  inputValue :: string
  isTyping :: bool
  notification :: "string option"
  dailyUsage :: jsval
  abortControllerRef :: "bool option"

text \<open>
  All the state a send touches: the component, the store, and the module's manager. A send
  is one step from a state to a state: of what happens while the call is awaited, only the
  abort signal is followed (the provider carries its readings).
\<close>

record world =
  ui :: main_chat
  storage :: local_storage
  geminiManager :: gemini_manager

text \<open>
  What a send reads from outside: the runtime with its clock when the message is
  submitted, the runtime with its clock when the response is back, and the provider.
\<close>

record send_env =
  clock_at_send :: runtime
  clock_at_reply :: runtime
  the_provider :: provider

text \<open>
  What a send leaves: the state, the notices it raised (each \<open>setNotification\<close> with a
  text), the requests it issued, the result of \<open>callGeminiAPI\<close> if the call was made,
  and the error the handler's promise rejects with, if any. The timer that clears a notice
  five seconds later is a later event.
\<close>

record send_outcome =
  after :: world
  notices :: "string list"
  requests :: "request list"
  api :: "api_result option"
  thrown :: "js_error option"

definition LIMIT_NOTICE :: string where
  "LIMIT_NOTICE = ''Daily limit reached (25 messages). Please come back tomorrow!''"

text \<open>\<open>if (currentChatId) updateChatMessages(currentChatId, msgs)\<close>; the id \<open>0\<close> is falsy.\<close>

definition persist :: "runtime \<Rightarrow> int option \<Rightarrow> jsval list \<Rightarrow> local_storage \<Rightarrow> js_error + local_storage" where
  "persist t currentChatId msgs ls =
     (case currentChatId of
        None \<Rightarrow> Inr ls
      | Some chatId \<Rightarrow> if chatId \<noteq> 0 then updateChatMessages t chatId msgs ls else Inr ls)"

definition userMessage :: "runtime \<Rightarrow> string \<Rightarrow> jsval" where
  "userMessage t txt =
     JObj [(''id'', JNum (Date_now t)), (''role'', JStr ''user''), (''text'', JStr (trim txt)),
           (''timestamp'', JStr (toISOString t))]"

definition aiMessage :: "runtime \<Rightarrow> api_result \<Rightarrow> jsval" where
  "aiMessage t result =
     JObj ([(''id'', JNum (Date_now t + 1)), (''role'', JStr ''ai''), (''text'', JStr (res_text result)),
            (''timestamp'', JStr (toISOString t))]
           @ (case modelUsed result of Some n \<Rightarrow> [(''modelUsed'', JStr n)] | None \<Rightarrow> []))"

definition errorMessage :: "runtime \<Rightarrow> api_result \<Rightarrow> jsval" where
  "errorMessage t result =
     JObj [(''id'', JNum (Date_now t + 1)), (''role'', JStr ''ai''),
           (''text'', JStr (''Sorry, I encountered an error: '' @ res_text result @ ''. Please try again.'')),
           (''timestamp'', JStr (toISOString t)), (''isError'', JBool True)]"

text \<open>The part of \<open>handleSendMessage\<close> after the \<open>await\<close>.\<close>

definition on_result ::
  "send_env \<Rightarrow> int option \<Rightarrow> jsval list \<Rightarrow> api_result \<Rightarrow> request list \<Rightarrow> world \<Rightarrow> send_outcome" where
  "on_result env currentChatId updatedMessages result reqs w =
     (let w1 = w\<lparr>ui := (ui w)\<lparr>isTyping := False, abortControllerRef := None\<rparr>\<rparr> in
      if isCancelled result
      then \<lparr>after = w1, notices = [], requests = reqs, api = Some result, thrown = None\<rparr>
      else if success result then
        (let finalMessages = updatedMessages @ [aiMessage (clock_at_reply env) result];
             w2 = w1\<lparr>ui := (ui w1)\<lparr>messages := finalMessages\<rparr>\<rparr> in
         case persist (clock_at_reply env) currentChatId finalMessages (storage w2) of
           Inl e \<Rightarrow> \<lparr>after = w2, notices = [], requests = reqs, api = Some result, thrown = Some e\<rparr>
         | Inr ls \<Rightarrow>
             \<lparr>after = w2\<lparr>storage := ls\<rparr>, notices = [], requests = reqs, api = Some result,
              thrown = None\<rparr>)
      else
        (let finalMessages = updatedMessages @ [errorMessage (clock_at_reply env) result];
             w2 = w1\<lparr>ui := (ui w1)\<lparr>messages := finalMessages\<rparr>\<rparr> in
         case persist (clock_at_reply env) currentChatId finalMessages (storage w2) of
           Inl e \<Rightarrow> \<lparr>after = w2, notices = [], requests = reqs, api = Some result, thrown = Some e\<rparr>
         | Inr ls \<Rightarrow>
             \<lparr>after = w2\<lparr>storage := ls, ui := (ui w2)\<lparr>notification := Some (res_text result)\<rparr>\<rparr>,
              notices = [res_text result], requests = reqs, api = Some result, thrown = None\<rparr>))"

definition handleSendMessage ::
  "send_env \<Rightarrow> string \<Rightarrow> int option \<Rightarrow> string \<Rightarrow> world \<Rightarrow> send_outcome" where
  "handleSendMessage env activeMode currentChatId txt w =
     (if trim txt = [] \<or> isTyping (ui w)
      then \<lparr>after = w, notices = [], requests = [], api = None, thrown = None\<rparr>
      else
        (case isDailyLimitReached (clock_at_send env) (storage w) of
           Inl e \<Rightarrow> \<lparr>after = w, notices = [], requests = [], api = None, thrown = Some e\<rparr>
         | Inr (True, ls1) \<Rightarrow>
             \<lparr>after = w\<lparr>storage := ls1, ui := (ui w)\<lparr>notification := Some LIMIT_NOTICE\<rparr>\<rparr>,
              notices = [LIMIT_NOTICE], requests = [], api = None, thrown = None\<rparr>
         | Inr (False, ls1) \<Rightarrow>
             (let updatedMessages = messages (ui w) @ [userMessage (clock_at_send env) txt];
                  w1 = w\<lparr>storage := ls1,
                         ui := (ui w)\<lparr>messages := updatedMessages, inputValue := [], isTyping := True,
                                      notification := None, abortControllerRef := Some False\<rparr>\<rparr> in
              case persist (clock_at_send env) currentChatId updatedMessages ls1 of
                Inl e \<Rightarrow> \<lparr>after = w1, notices = [], requests = [], api = None, thrown = Some e\<rparr>
              | Inr ls2 \<Rightarrow>
                  (case incrementDailyUsage (clock_at_send env) ls2 of
                     (newUsage, ls3) \<Rightarrow>
                       (case callGeminiAPI (the_provider env) (trim txt) activeMode (butlast updatedMessages)
                               (geminiManager w1) of
                          (result, m', reqs) \<Rightarrow>
                            on_result env currentChatId updatedMessages result reqs
                              (w1\<lparr>storage := ls3, geminiManager := m',
                                  ui := (ui w1)\<lparr>dailyUsage := newUsage\<rparr>\<rparr>))))))"

text \<open>An attempt that fails with an error that is not a cancellation: the \<open>catch\<close> rotates the key.\<close>

definition rotates :: "attempt \<Rightarrow> bool" where
  "rotates a =
     (case try_body a of
        Inl e \<Rightarrow> \<not> (err_name e = ''AbortError'' \<or> aborted_in_catch a)
      | Inr text \<Rightarrow> False)"

text \<open>The manager after \<open>k\<close> rotations.\<close>

definition rotated :: "gemini_manager \<Rightarrow> nat \<Rightarrow> gemini_manager" where
  "rotated m k = m\<lparr>currentKeyIndex := (currentKeyIndex m + k) mod length (apiKeys m)\<rparr>"

subsection \<open>Well-formed data\<close>

text \<open>
  A message as the orchestrator writes it: an object with a string \<open>text\<close> (and, for the
  older format, a string \<open>content\<close> if any) that \<open>JSON.stringify\<close> writes as it is.
\<close>

definition is_object :: "jsval \<Rightarrow> bool" where
  "is_object v = (case v of JObj ps \<Rightarrow> True | _ \<Rightarrow> False)"

definition is_message :: "jsval \<Rightarrow> bool" where
  "is_message m =
     (case m of
        JObj ps \<Rightarrow>
          to_json m = m
          \<and> (case map_of ps ''text'' of Some (JStr t) \<Rightarrow> True | _ \<Rightarrow> False)
          \<and> (case map_of ps ''content'' of None \<Rightarrow> True | Some (JStr s) \<Rightarrow> True | _ \<Rightarrow> False)
      | _ \<Rightarrow> False)"

section \<open>The older client (Chat.jsx)\<close>









section \<open>Example inputs\<close>

definition example_manager :: gemini_manager where
  "example_manager =
     \<lparr>apiKeys = [''k0'', ''k1'', ''k2''], modelName = ''gemini-2.5-flash'', currentKeyIndex = 1\<rparr>"

definition busy :: attempt where
  "busy =
     \<lparr>sent = Inl \<lparr>err_name = ''Error'',
                   err_message = ''[503 Service Unavailable] The model is overloaded.''\<rparr>,
      aborted_after_send = False, aborted_in_catch = False\<rparr>"

definition bad_request :: attempt where
  "bad_request =
     \<lparr>sent = Inl \<lparr>err_name = ''Error'', err_message = ''[400 Bad Request] API key not valid.''\<rparr>,
      aborted_after_send = False, aborted_in_catch = False\<rparr>"

definition answers :: "string \<Rightarrow> attempt" where
  "answers t = \<lparr>sent = Inr (Inr t), aborted_after_send = False, aborted_in_catch = False\<rparr>"

definition bad_then_hello :: "nat \<Rightarrow> attempt" where
  "bad_then_hello i = (if i = 0 then bad_request else answers ''hello'')"

definition no_options :: gen_options where
  "no_options = \<lparr>opt_history = [], opt_systemInstruction = None, opt_modelName = None\<rparr>"



text \<open>
  A runtime on Tuesday 3 November 2026. No example stores a string as a count, so that
  how this runtime reads a string as a number has no part in them: it is given the reading
  of the decimal integers without sign.
\<close>

definition decimal :: "string \<Rightarrow> jsnum" where
  "decimal s =
     (if s \<noteq> [] \<and> list_all (\<lambda>c. c \<in> set ''0123456789'') s
      then Num (foldl (\<lambda>n c. 10 * n + (of_char c - 48)) (0::int) s)
      else NaN)"

definition tuesday :: runtime where
  "tuesday =
     \<lparr>getFullYear = 2026, getMonth = 10, getDate = 3, Date_now = 1793696400000,
      toISOString = ''2026-11-03T09:00:00.000Z'', toLocaleTimeString = (\<lambda>d. ''9:00:00 AM''),
      StringToNumber = decimal, number_minus = (\<lambda>n d. NaN)\<rparr>"

definition monday_record :: jsval where
  "monday_record = JObj [(''count'', JNum 25), (''date'', JStr ''2026-11-02'')]"

definition monday_store :: local_storage where
  "monday_store =
     \<lparr>items = (\<lambda>k. if k = DAILY_USAGE then Some (Ser monday_record) else None),
      can_read = True, can_write = True\<rparr>"

definition null_history_store :: local_storage where
  "null_history_store =
     \<lparr>items = (\<lambda>k. if k = CHAT_HISTORY then Some (Ser JNull) else None),
      can_read = True, can_write = True\<rparr>"

definition blocked_store :: local_storage where
  "blocked_store = \<lparr>items = (\<lambda>k. None), can_read = False, can_write = False\<rparr>"

definition full_store :: local_storage where
  "full_store =
     \<lparr>items = (\<lambda>k. if k = DAILY_USAGE
                      then Some (Ser (JObj [(''count'', JNum 25), (''date'', JStr ''2026-11-03'')]))
                      else None),
      can_read = True, can_write = True\<rparr>"

definition example_chat :: jsval where
  "example_chat =
     JObj [(''id'', JNum 7), (''title'', JStr ''New Chat - Solance''), (''mode'', JStr ''Solance''),
           (''messages'', JArr []), (''createdAt'', JStr ''2026-11-03T08:00:00.000Z'')]"

definition chat_store :: local_storage where
  "chat_store =
     \<lparr>items = (\<lambda>k. if k = DAILY_USAGE
                      then Some (Ser (JObj [(''count'', JNum 24), (''date'', JStr ''2026-11-03'')]))
                    else if k = CHAT_HISTORY then Some (Ser (JArr [example_chat]))
                    else None),
      can_read = True, can_write = True\<rparr>"

definition idle_ui :: main_chat where
  "idle_ui =
     \<lparr>messages = [], inputValue = ''hi'', isTyping = False, notification = None,
      dailyUsage = JObj [(''count'', JNum 24), (''date'', JStr ''2026-11-03'')],
      abortControllerRef = None\<rparr>"

definition example_world :: world where
  "example_world = \<lparr>ui = idle_ui, storage = chat_store, geminiManager = example_manager\<rparr>"

definition aborted :: attempt where
  "aborted = \<lparr>sent = Inr (Inr ''late answer''), aborted_after_send = True, aborted_in_catch = True\<rparr>"

definition busy_then_aborted :: provider where
  "busy_then_aborted = \<lparr>nth_attempt = (\<lambda>i. if i = 0 then busy else aborted), aborted_finally = True\<rparr>"

definition aborted_at_once :: provider where
  "aborted_at_once = \<lparr>nth_attempt = (\<lambda>i. aborted), aborted_finally = True\<rparr>"

definition cancelled_result :: api_result where
  "cancelled_result =
     \<lparr>success = False, res_text = ''Request cancelled'', modelUsed = None, isCancelled = True\<rparr>"

definition aborted_env :: send_env where
  "aborted_env = \<lparr>clock_at_send = tuesday, clock_at_reply = tuesday, the_provider = aborted_at_once\<rparr>"

definition example_env :: send_env where
  "example_env = \<lparr>clock_at_send = tuesday, clock_at_reply = tuesday, the_provider = busy_then_aborted\<rparr>"

section \<open>The failover loop in closed form\<close>

declare generateResponse_loop.simps [simp del]

lemma loop_done:
  "\<not> attempts < length (apiKeys m) \<Longrightarrow>
   generateResponse_loop provider opts prompt attempts m = (Inr FALLBACK, m, [])"
  by (subst generateResponse_loop.simps) simp

lemma loop_stop:
  "attempts < length (apiKeys m) \<Longrightarrow> \<not> rotates (provider attempts) \<Longrightarrow>
   generateResponse_loop provider opts prompt attempts m =
     (try_body (provider attempts), m, [make_request m opts prompt])"
  by (subst generateResponse_loop.simps) (auto simp: rotates_def Let_def split: sum.splits)

lemma loop_rotate:
  "attempts < length (apiKeys m) \<Longrightarrow> rotates (provider attempts) \<Longrightarrow>
   currentKeyIndex m < length (apiKeys m) \<Longrightarrow>
   generateResponse_loop provider opts prompt attempts m =
     (case generateResponse_loop provider opts prompt (Suc attempts) (rotated m (Suc 0)) of
        (r, m', reqs) \<Rightarrow> (r, m', make_request m opts prompt # reqs))"
  by (subst generateResponse_loop.simps)
     (auto simp: rotates_def rotated_def make_request_def Let_def split: sum.splits)

lemma rotated_0: "currentKeyIndex m < length (apiKeys m) \<Longrightarrow> rotated m 0 = m"
  by (simp add: rotated_def)

lemma rotated_rotated:
  "rotated (rotated m j) k = rotated m (j + k)"
  by (simp add: rotated_def mod_add_left_eq add.assoc)

lemma rotated_fields [simp]:
  "apiKeys (rotated m k) = apiKeys m" "modelName (rotated m k) = modelName m"
  "currentKeyIndex (rotated m k) = (currentKeyIndex m + k) mod length (apiKeys m)"
  by (simp_all add: rotated_def)

lemma find_upt_ge: "List.find P [a..<b] = Some j \<Longrightarrow> a \<le> j \<and> j < b \<and> P j"
  by (auto simp: find_Some_iff)

lemma loop_closed_form:
  "currentKeyIndex m < length (apiKeys m) \<Longrightarrow>
   generateResponse_loop provider opts prompt attempts m =
     (case List.find (\<lambda>j. \<not> rotates (provider j)) [attempts..<length (apiKeys m)] of
        None \<Rightarrow>
          (Inr FALLBACK, rotated m (length (apiKeys m) - attempts),
           map (\<lambda>i. make_request (rotated m (i - attempts)) opts prompt) [attempts..<length (apiKeys m)])
      | Some j \<Rightarrow>
          (try_body (provider j), rotated m (j - attempts),
           map (\<lambda>i. make_request (rotated m (i - attempts)) opts prompt) [attempts..<Suc j]))"
proof (induction "length (apiKeys m) - attempts" arbitrary: attempts m)
  case 0
  then show ?case by (simp add: loop_done rotated_0)
next
  case (Suc d)
  then have lt: "attempts < length (apiKeys m)" by simp
  show ?case
  proof (cases "rotates (provider attempts)")
    case False
    with lt Suc.prems show ?thesis
      by (simp add: loop_stop upt_conv_Cons rotated_0)
  next
    case True
    let ?n = "length (apiKeys m)"
    let ?P = "\<lambda>j. \<not> rotates (provider j)"
    let ?m1 = "rotated m (Suc 0)"
    have d: "d = length (apiKeys ?m1) - Suc attempts"
      using Suc.hyps(2) by simp
    have wf: "currentKeyIndex ?m1 < length (apiKeys ?m1)"
    proof -
      have "0 < ?n" using lt by (cases "apiKeys m") simp_all
      then show ?thesis by simp
    qed
    have shift: "rotated ?m1 (i - Suc attempts) = rotated m (i - attempts)"
      if "Suc attempts \<le> i" for i
    proof -
      have "Suc 0 + (i - Suc attempts) = i - attempts" using that by arith
      then show ?thesis by (simp only: rotated_rotated)
    qed
    have m1: "map (\<lambda>i. make_request (rotated ?m1 (i - Suc attempts)) opts prompt) [Suc attempts..<k]
            = map (\<lambda>i. make_request (rotated m (i - attempts)) opts prompt) [Suc attempts..<k]" for k
      by (rule map_cong) (simp_all add: shift)
    have IH: "generateResponse_loop provider opts prompt (Suc attempts) ?m1 =
       (case List.find ?P [Suc attempts..<?n] of
          None \<Rightarrow> (Inr FALLBACK, rotated m (?n - attempts),
                   map (\<lambda>i. make_request (rotated m (i - attempts)) opts prompt) [Suc attempts..<?n])
        | Some j \<Rightarrow> (try_body (provider j), rotated m (j - attempts),
                   map (\<lambda>i. make_request (rotated m (i - attempts)) opts prompt) [Suc attempts..<Suc j]))"
    proof (cases "List.find ?P [Suc attempts..<?n]")
      case None
      have "rotated ?m1 (?n - Suc attempts) = rotated m (?n - attempts)"
        using lt shift [of ?n] by simp
      with None show ?thesis
        using Suc.hyps(1) [OF d wf] by (simp add: m1)
    next
      case (Some j)
      then have "Suc attempts \<le> j" by (auto dest: find_upt_ge)
      then have "rotated ?m1 (j - Suc attempts) = rotated m (j - attempts)"
        by (rule shift)
      with Some show ?thesis
        using Suc.hyps(1) [OF d wf] by (simp add: m1 del: upt_Suc)
    qed
    have first: "make_request (rotated m (attempts - attempts)) opts prompt = make_request m opts prompt"
      using Suc.prems by (simp add: rotated_0)
    have f: "List.find ?P [attempts..<?n] = List.find ?P [Suc attempts..<?n]"
      using lt True by (simp add: upt_conv_Cons)
    show ?thesis
    proof (cases "List.find ?P [Suc attempts..<?n]")
      case None
      then show ?thesis
        using lt True Suc.prems IH first
        by (simp add: loop_rotate f upt_conv_Cons [of attempts ?n])
    next
      case (Some j)
      then have "attempts < Suc j" by (auto dest: find_upt_ge)
      then have "[attempts..<Suc j] = attempts # [Suc attempts..<Suc j]"
        by (rule upt_conv_Cons)
      with Some show ?thesis
        using lt True Suc.prems IH first
        by (simp add: loop_rotate f del: upt_Suc)
    qed
  qed
qed

lemma rotated_full: "currentKeyIndex m < length (apiKeys m) \<Longrightarrow> rotated m (length (apiKeys m)) = m"
  by (simp add: rotated_def)

lemma find_all_rotate:
  "(\<forall>i<n. rotates (provider i)) \<Longrightarrow> List.find (\<lambda>j. \<not> rotates (provider j)) [0..<n] = None"
  by (simp add: find_None_iff)

lemma generateResponse_exhausted:
  assumes "currentKeyIndex m < length (apiKeys m)"
      and "\<forall>i<length (apiKeys m). rotates (provider i)"
  shows "generateResponse provider opts prompt m =
           (Inr FALLBACK, m,
            map (\<lambda>i. make_request (rotated m i) opts prompt) [0..<length (apiKeys m)])"
  using assms
  by (simp add: generateResponse_def loop_closed_form find_all_rotate rotated_full)



lemma generateResponse_stops:
  assumes "currentKeyIndex m < length (apiKeys m)"
      and "List.find (\<lambda>j. \<not> rotates (provider j)) [0..<length (apiKeys m)] = Some j"
  shows "generateResponse provider opts prompt m =
           (try_body (provider j), rotated m j,
            map (\<lambda>i. make_request (rotated m i) opts prompt) [0..<Suc j])"
  using assms
  by (simp add: generateResponse_def loop_closed_form del: upt_Suc)

lemma generateResponse_cases:
  assumes wf: "currentKeyIndex m < length (apiKeys m)"
  obtains
    (exhausted) "\<forall>i<length (apiKeys m). rotates (provider i)"
      "generateResponse provider opts prompt m =
         (Inr FALLBACK, m, map (\<lambda>i. make_request (rotated m i) opts prompt) [0..<length (apiKeys m)])"
  | (stopped) j where "j < length (apiKeys m)" "\<not> rotates (provider j)" "\<forall>i<j. rotates (provider i)"
      "generateResponse provider opts prompt m =
         (try_body (provider j), rotated m j,
          map (\<lambda>i. make_request (rotated m i) opts prompt) [0..<Suc j])"
proof (cases "List.find (\<lambda>j. \<not> rotates (provider j)) [0..<length (apiKeys m)]")
  case None
  then have "\<forall>i<length (apiKeys m). rotates (provider i)"
    by (auto simp: find_None_iff)
  then show ?thesis
    using exhausted generateResponse_exhausted [OF wf] by blast
next
  case (Some j)
  then have "j < length (apiKeys m)" "\<not> rotates (provider j)" "\<forall>i<j. rotates (provider i)"
    by (auto simp: find_Some_iff)
  then show ?thesis
    using stopped generateResponse_stops [OF wf Some] by blast
qed

text \<open>
  The cursor of a manager stays inside its key list: the constructor puts it there, and
  \<open>generateResponse\<close> keeps it there and never changes the keys.
\<close>

lemma GeminiManager_cursor_in_range:
  "GeminiManager keys model = Inr m \<Longrightarrow> currentKeyIndex m < length (apiKeys m)"
  by (auto simp: GeminiManager_def split: if_splits)

lemma generateResponse_cursor_in_range:
  assumes wf: "currentKeyIndex m < length (apiKeys m)"
  shows "currentKeyIndex (fst (snd (generateResponse provider opts prompt m)))
           < length (apiKeys (fst (snd (generateResponse provider opts prompt m))))
         \<and> apiKeys (fst (snd (generateResponse provider opts prompt m))) = apiKeys m"
proof -
  have pos: "0 < length (apiKeys m)" using wf by (cases "apiKeys m") simp_all
  have less: "(currentKeyIndex m + j) mod length (apiKeys m) < length (apiKeys m)" for j
    using pos by (rule mod_less_divisor)
  show ?thesis
    by (rule generateResponse_cases [OF wf, of provider opts prompt]) (simp_all add: wf less)
qed

lemma rotates_busy: "rotates busy"
  by (simp add: rotates_def try_body_def busy_def)

section \<open>Failover Model Client: the claims\<close>

text \<open>
  C2. When every attempt of a run fails with an error that is not a cancellation (the
  only kind of failure the loop retries), \<open>generateResponse\<close> returns exactly the
  literal \<open>Server is busy, please talk to owner of RYUNEX\<close>, and
  \<open>currentKeyIndex\<close> at exit equals its value at entry. The manager is one the
  constructor and earlier calls can leave: its cursor is inside the key list.
\<close>

theorem exhaustion_returns_fallback:
  assumes "currentKeyIndex m < length (apiKeys m)"
      and "\<forall>i<length (apiKeys m). rotates (provider i)"
  shows "fst (generateResponse provider opts prompt m)
           = Inr ''Server is busy, please talk to owner of RYUNEX''
         \<and> currentKeyIndex (fst (snd (generateResponse provider opts prompt m))) = currentKeyIndex m"
  using generateResponse_exhausted [OF assms] by (simp add: FALLBACK_def)

theorem exhaustion_returns_fallback_witness:
  "currentKeyIndex example_manager < length (apiKeys example_manager)
   \<and> rotates busy
   \<and> fst (generateResponse (\<lambda>i. busy) no_options ''hi'' example_manager)
           = Inr ''Server is busy, please talk to owner of RYUNEX''
   \<and> currentKeyIndex (fst (snd (generateResponse (\<lambda>i. busy) no_options ''hi'' example_manager))) = 1"
proof -
  have wf: "currentKeyIndex example_manager < length (apiKeys example_manager)"
    by (simp add: example_manager_def)
  have all: "\<forall>i<length (apiKeys example_manager). rotates ((\<lambda>i. busy) i)"
    by (simp add: rotates_busy)
  show ?thesis
    using exhaustion_returns_fallback [OF wf all, of no_options "''hi''"] wf rotates_busy
    by (simp add: example_manager_def)
qed




text \<open>
  C1, as stated, fails: \<open>generateResponse\<close> has no class of fatal errors. With the cursor
  on the second of three keys, a first attempt that fails with a 400 (an error that no
  other key can fix) does not stop the loop: the third key is tried, its answer is
  returned, and the text of the 400 reaches nobody.
\<close>

theorem fatal_error_stops_loop_counterexample:
  "try_body (bad_then_hello 0)
     = Inl \<lparr>err_name = ''Error'', err_message = ''[400 Bad Request] API key not valid.''\<rparr>
   \<and> fst (generateResponse bad_then_hello no_options ''hi'' example_manager) = Inr ''hello''
   \<and> map req_keyIndex (snd (snd (generateResponse bad_then_hello no_options ''hi'' example_manager)))
       = [1, 2]"
  by code_simp

text \<open>
  C1, amended. An attempt that fails with an error that is not a cancellation never stops
  the loop: when a key is left the next one is tried, and when none is left the result is
  the fixed fallback. The error of such an attempt is not what the caller gets: an error
  reaches the caller only from a cancelled attempt (one whose error is an
  \<open>AbortError\<close>, or whose signal is aborted when the \<open>catch\<close> runs).
\<close>

theorem failed_attempt_rotates:
  assumes wf: "currentKeyIndex m < length (apiKeys m)"
      and run: "generateResponse provider opts prompt m = (r, m', reqs)"
      and k: "k < length reqs"
      and fails: "rotates (provider k)"
  shows "(Suc k < length (apiKeys m) \<longrightarrow>
            Suc k < length reqs
            \<and> req_keyIndex (reqs ! Suc k) = (currentKeyIndex m + Suc k) mod length (apiKeys m))
       \<and> (Suc k = length (apiKeys m) \<longrightarrow> r = Inr FALLBACK)
       \<and> (\<forall>e. r = Inl e \<longrightarrow>
             (\<exists>j<length reqs. try_body (provider j) = Inl e
                 \<and> (err_name e = ''AbortError'' \<or> aborted_in_catch (provider j))))"
proof (rule generateResponse_cases [OF wf, of provider opts prompt])
  assume all: "\<forall>i<length (apiKeys m). rotates (provider i)"
    and eq: "generateResponse provider opts prompt m =
         (Inr FALLBACK, m, map (\<lambda>i. make_request (rotated m i) opts prompt) [0..<length (apiKeys m)])"
  from eq run have r: "r = Inr FALLBACK"
    and reqs: "reqs = map (\<lambda>i. make_request (rotated m i) opts prompt) [0..<length (apiKeys m)]"
    by simp_all
  show ?thesis
    using r reqs by (simp add: make_request_def)
next
  fix j
  assume j: "j < length (apiKeys m)" and stop: "\<not> rotates (provider j)"
    and before: "\<forall>i<j. rotates (provider i)"
    and eq: "generateResponse provider opts prompt m =
         (try_body (provider j), rotated m j,
          map (\<lambda>i. make_request (rotated m i) opts prompt) [0..<Suc j])"
  from eq run have r: "r = try_body (provider j)"
    and reqs: "reqs = map (\<lambda>i. make_request (rotated m i) opts prompt) [0..<Suc j]"
    by simp_all
  from reqs have len: "length reqs = Suc j" by simp
  from k len fails stop have kj: "k < j" by (cases "k = j") auto
  have next_key: "req_keyIndex (reqs ! Suc k) = (currentKeyIndex m + Suc k) mod length (apiKeys m)"
    using kj unfolding reqs by (simp add: make_request_def nth_append del: upt_Suc)
  have cancel: "\<exists>j<length reqs. try_body (provider j) = Inl e
                 \<and> (err_name e = ''AbortError'' \<or> aborted_in_catch (provider j))"
    if "r = Inl e" for e
  proof -
    from that r have "try_body (provider j) = Inl e" by simp
    moreover from this stop have "err_name e = ''AbortError'' \<or> aborted_in_catch (provider j)"
      by (simp add: rotates_def)
    ultimately show ?thesis using len by auto
  qed
  show ?thesis
    using kj j len next_key cancel by auto
qed

theorem failed_attempt_rotates_witness:
  "currentKeyIndex example_manager < length (apiKeys example_manager)
   \<and> rotates (bad_then_hello 0)
   \<and> generateResponse bad_then_hello no_options ''hi'' example_manager
       = (Inr ''hello'', rotated example_manager 1,
          [make_request example_manager no_options ''hi'',
           make_request (rotated example_manager 1) no_options ''hi''])
   \<and> req_keyIndex (make_request (rotated example_manager 1) no_options ''hi'') = 2"
proof -
  have wf: "currentKeyIndex example_manager < length (apiKeys example_manager)"
    by (simp add: example_manager_def)
  have fails: "rotates (bad_then_hello 0)"
    by (simp add: rotates_def try_body_def bad_then_hello_def bad_request_def)
  have run: "generateResponse bad_then_hello no_options ''hi'' example_manager
       = (Inr ''hello'', rotated example_manager 1,
          [make_request example_manager no_options ''hi'',
           make_request (rotated example_manager 1) no_options ''hi''])"
    by code_simp
  have k: "0 < length [make_request example_manager no_options ''hi'',
           make_request (rotated example_manager 1) no_options ''hi'']"
    by simp
  show ?thesis
    using failed_attempt_rotates [OF wf run k fails] wf fails run
    by (simp add: example_manager_def)
qed

section \<open>Local Store and Usage Governor: the claims\<close>

lemma today_tuesday: "getTodayDateString tuesday = ''2026-11-03''"
  by code_simp

lemma getDailyUsage_stale:
  assumes "can_read ls"
      and "items ls DAILY_USAGE = Some (Ser (JObj ps))"
      and "map_of ps ''date'' \<noteq> Some (JStr (getTodayDateString now))"
  shows "getDailyUsage now ls =
           (fresh_usage now,
            if can_write ls then ls\<lparr>items := (items ls)(DAILY_USAGE \<mapsto> Ser (fresh_usage now))\<rparr> else ls)"
  using assms
  by (simp add: getDailyUsage_def getDailyUsage_try_def getItem_def setItem_def isNewDay_def
      strict_eq_def JSON_stringify_def fresh_usage_def Let_def split: option.splits jsval.splits)

lemma getDailyUsage_current:
  assumes "can_read ls"
      and "items ls DAILY_USAGE = Some (Ser (JObj ps))"
      and "map_of ps ''date'' = Some (JStr (getTodayDateString now))"
  shows "getDailyUsage now ls = (JObj ps, ls)"
  using assms
  by (simp add: getDailyUsage_def getDailyUsage_try_def getItem_def isNewDay_def strict_eq_def)

lemma getChatHistory_cases:
  "getChatHistory ls =
     (if \<not> can_read ls then JArr []
      else case items ls CHAT_HISTORY of
             None \<Rightarrow> JArr []
           | Some (NotJson s) \<Rightarrow> JArr []
           | Some (Ser v) \<Rightarrow> v)"
  by (simp add: getChatHistory_def getChatHistory_try_def getItem_def split: option.splits stored_text.splits)

lemma getDailyUsage_unreadable:
  "\<not> can_read ls \<Longrightarrow> getDailyUsage now ls = (fresh_usage now, ls)"
  by (simp add: getDailyUsage_def getDailyUsage_try_def getItem_def)

lemma getDailyUsage_missing:
  "can_read ls \<Longrightarrow>
   items ls DAILY_USAGE = None \<or> items ls DAILY_USAGE = Some (NotJson s)
     \<or> items ls DAILY_USAGE = Some (Ser JNull) \<Longrightarrow>
   getDailyUsage now ls = (fresh_usage now, ls)"
  by (auto simp: getDailyUsage_def getDailyUsage_try_def getItem_def)

lemma get_prop_Some_object: "get_prop v k = Inr (Some x) \<Longrightarrow> \<exists>ps. v = JObj ps"
  by (cases v) simp_all

lemma getDailyUsage_object: "\<exists>ps. fst (getDailyUsage now ls) = JObj ps"
proof (cases "getDailyUsage_try now ls")
  case (Inl e)
  then show ?thesis by (simp add: getDailyUsage_def fresh_usage_def)
next
  case (Inr r)
  then have "\<exists>ps. fst r = JObj ps"
    by (auto simp: getDailyUsage_try_def fresh_usage_def isNewDay_def strict_eq_def Let_def
        split: sum.splits option.splits if_splits jsval.splits dest: get_prop_Some_object)
  with Inr show ?thesis by (simp add: getDailyUsage_def)
qed

lemma getCurrentChatId_cases:
  "getCurrentChatId ls = (if can_read ls then items ls CURRENT_CHAT_ID else None)"
  by (simp add: getCurrentChatId_def getItem_def)

lemma saveChatHistory_cases:
  "saveChatHistory chats ls =
     (if can_write ls then ls\<lparr>items := (items ls)(CHAT_HISTORY \<mapsto> JSON_stringify chats)\<rparr> else ls)"
  by (simp add: saveChatHistory_def setItem_def)

lemma saveCurrentChatId_cases:
  "saveCurrentChatId chatId ls =
     (if can_write ls then ls\<lparr>items := (items ls)(CURRENT_CHAT_ID \<mapsto> Ser (JNum chatId))\<rparr> else ls)"
  by (simp add: saveCurrentChatId_def setItem_def)

text \<open>
  C4. When the stored usage record is dated another day than today (a record of day
  \<open>D\<close> read on day \<open>D + 1\<close>), \<open>getDailyUsage\<close> returns \<open>{count: 0, date: today}\<close>
  whatever the stored count, and writes that fresh record to the store; the write takes
  effect when the backend accepts it.
\<close>

theorem stale_usage_record_resets:
  assumes "can_read ls"
      and "items ls DAILY_USAGE = Some (Ser (JObj ps))"
      and "map_of ps ''date'' = Some (JStr d)"
      and "d \<noteq> getTodayDateString now"
  shows "fst (getDailyUsage now ls) = JObj [(''count'', JNum 0), (''date'', JStr (getTodayDateString now))]
       \<and> (can_write ls \<longrightarrow>
            snd (getDailyUsage now ls)
              = ls\<lparr>items := (items ls)(DAILY_USAGE \<mapsto>
                     Ser (JObj [(''count'', JNum 0), (''date'', JStr (getTodayDateString now))]))\<rparr>)
       \<and> (\<not> can_write ls \<longrightarrow> snd (getDailyUsage now ls) = ls)"
proof -
  from assms(3,4) have "map_of ps ''date'' \<noteq> Some (JStr (getTodayDateString now))" by simp
  from getDailyUsage_stale [OF assms(1,2) this] show ?thesis
    by (simp add: fresh_usage_def)
qed

theorem stale_usage_record_resets_witness:
  "can_read monday_store \<and> can_write monday_store
   \<and> items monday_store DAILY_USAGE = Some (Ser (JObj [(''count'', JNum 25), (''date'', JStr ''2026-11-02'')]))
   \<and> getTodayDateString tuesday = ''2026-11-03''
   \<and> fst (getDailyUsage tuesday monday_store) = JObj [(''count'', JNum 0), (''date'', JStr ''2026-11-03'')]
   \<and> items (snd (getDailyUsage tuesday monday_store)) DAILY_USAGE
       = Some (Ser (JObj [(''count'', JNum 0), (''date'', JStr ''2026-11-03'')]))"
proof -
  have r: "can_read monday_store" and w: "can_write monday_store"
    by (simp_all add: monday_store_def)
  have i: "items monday_store DAILY_USAGE = Some (Ser (JObj [(''count'', JNum 25), (''date'', JStr ''2026-11-02'')]))"
    by (simp add: monday_store_def monday_record_def)
  have d: "map_of [(''count'', JNum 25), (''date'', JStr ''2026-11-02'')] ''date'' = Some (JStr ''2026-11-02'')"
    by simp
  have n: "''2026-11-02'' \<noteq> getTodayDateString tuesday"
    by (simp add: today_tuesday)
  show ?thesis
    using stale_usage_record_resets [OF r i d n] r w i by (simp add: today_tuesday)
qed





text \<open>
  C9, as stated, fails on a stored value of the wrong shape. When the stored history is
  the text \<open>null\<close> (valid JSON, not a list), \<open>getChatHistory\<close> returns \<open>null\<close>, not the
  empty list, and the operations of the Local Store that search the history
  (\<open>updateChatMessages\<close>, \<open>getChatById\<close>) throw a TypeError to their caller.
\<close>

theorem local_store_total_counterexample:
  "getChatHistory null_history_store = JNull
   \<and> updateChatMessages tuesday 7 [] null_history_store = Inl TypeError
   \<and> getChatById 7 null_history_store = Inl TypeError"
  by (simp add: getChatHistory_cases updateChatMessages_def getChatById_def null_history_store_def)

text \<open>
  C9, amended. The read operations \<open>getChatHistory\<close>, \<open>getDailyUsage\<close> and
  \<open>getCurrentChatId\<close> never throw (each is a total function here: every step that can
  throw is inside its \<open>try\<close>), and they return the empty defaults (empty list, fresh
  \<open>{count: 0, date: today}\<close>, \<open>null\<close>) when the backend is unavailable, when the key is
  missing, and when the stored text is empty or is not JSON (\<open>getDailyUsage\<close> also when it
  is the text \<open>null\<close>). A stored text that parses is otherwise returned as parsed, whatever
  its shape. The write operations \<open>saveChatHistory\<close> and \<open>saveCurrentChatId\<close> never
  throw, and leave the store as it is when the write fails.
\<close>

theorem local_store_fallbacks:
  "(\<not> can_read ls \<longrightarrow>
      getChatHistory ls = JArr [] \<and> getDailyUsage now ls = (fresh_usage now, ls)
      \<and> getCurrentChatId ls = None)
   \<and> (can_read ls \<longrightarrow> getCurrentChatId ls = items ls CURRENT_CHAT_ID)
   \<and> (can_read ls \<and> (items ls CHAT_HISTORY = None \<or> items ls CHAT_HISTORY = Some (NotJson s))
        \<longrightarrow> getChatHistory ls = JArr [])
   \<and> (can_read ls \<and> items ls CHAT_HISTORY = Some (Ser v) \<longrightarrow> getChatHistory ls = v)
   \<and> (can_read ls \<and> (items ls DAILY_USAGE = None \<or> items ls DAILY_USAGE = Some (NotJson s)
                       \<or> items ls DAILY_USAGE = Some (Ser JNull))
        \<longrightarrow> getDailyUsage now ls = (fresh_usage now, ls))
   \<and> (\<not> can_write ls \<longrightarrow> saveChatHistory chats ls = ls \<and> saveCurrentChatId chatId ls = ls)
   \<and> (can_write ls \<longrightarrow>
        saveChatHistory chats ls = ls\<lparr>items := (items ls)(CHAT_HISTORY \<mapsto> JSON_stringify chats)\<rparr>
        \<and> saveCurrentChatId chatId ls = ls\<lparr>items := (items ls)(CURRENT_CHAT_ID \<mapsto> Ser (JNum chatId))\<rparr>)"
proof -
  have a: "\<not> can_read ls \<longrightarrow>
      getChatHistory ls = JArr [] \<and> getDailyUsage now ls = (fresh_usage now, ls)
      \<and> getCurrentChatId ls = None"
    by (simp add: getChatHistory_cases getDailyUsage_unreadable getCurrentChatId_cases)
  have b: "can_read ls \<longrightarrow> getCurrentChatId ls = items ls CURRENT_CHAT_ID"
    by (simp add: getCurrentChatId_cases)
  have c: "can_read ls \<and> (items ls CHAT_HISTORY = None \<or> items ls CHAT_HISTORY = Some (NotJson s))
        \<longrightarrow> getChatHistory ls = JArr []"
    by (auto simp: getChatHistory_cases)
  have d: "can_read ls \<and> items ls CHAT_HISTORY = Some (Ser v) \<longrightarrow> getChatHistory ls = v"
    by (simp add: getChatHistory_cases)
  have e: "can_read ls \<and> (items ls DAILY_USAGE = None \<or> items ls DAILY_USAGE = Some (NotJson s)
                       \<or> items ls DAILY_USAGE = Some (Ser JNull))
        \<longrightarrow> getDailyUsage now ls = (fresh_usage now, ls)"
    using getDailyUsage_missing [of ls s now] by blast
  have f: "\<not> can_write ls \<longrightarrow> saveChatHistory chats ls = ls \<and> saveCurrentChatId chatId ls = ls"
    by (simp add: saveChatHistory_cases saveCurrentChatId_cases)
  have g: "can_write ls \<longrightarrow>
        saveChatHistory chats ls = ls\<lparr>items := (items ls)(CHAT_HISTORY \<mapsto> JSON_stringify chats)\<rparr>
        \<and> saveCurrentChatId chatId ls = ls\<lparr>items := (items ls)(CURRENT_CHAT_ID \<mapsto> Ser (JNum chatId))\<rparr>"
    by (simp add: saveChatHistory_cases saveCurrentChatId_cases)
  from a b c d e f g show ?thesis by blast
qed

theorem local_store_fallbacks_witness:
  "getChatHistory blocked_store = JArr []
   \<and> getDailyUsage tuesday blocked_store
       = (JObj [(''count'', JNum 0), (''date'', JStr ''2026-11-03'')], blocked_store)
   \<and> getCurrentChatId blocked_store = None
   \<and> saveChatHistory (JArr []) blocked_store = blocked_store
   \<and> saveCurrentChatId 7 blocked_store = blocked_store
   \<and> getChatHistory monday_store = JArr []
   \<and> getCurrentChatId monday_store = None"
proof -
  have r: "\<not> can_read blocked_store" and w: "\<not> can_write blocked_store"
    by (simp_all add: blocked_store_def)
  have r': "can_read monday_store" and h: "items monday_store CHAT_HISTORY = None"
    and c: "items monday_store CURRENT_CHAT_ID = None"
    by (simp_all add: monday_store_def DAILY_USAGE_def CHAT_HISTORY_def CURRENT_CHAT_ID_def)
  show ?thesis
    using local_store_fallbacks [of blocked_store tuesday "[]" JNull "JArr []" 7]
      local_store_fallbacks [of monday_store tuesday "[]" JNull "JArr []" 7] r w r' h c
    by (simp add: fresh_usage_def today_tuesday)
qed

section \<open>The history sent to the provider: the claim\<close>

lemma strict_eq_JStr: "strict_eq x (Some (JStr s)) = (x = Some (JStr s))"
  by (auto simp: strict_eq_def split: option.splits jsval.splits)

lemma strict_eq_JNum: "strict_eq x (Some (JNum n)) = (x = Some (JNum n))"
  by (auto simp: strict_eq_def split: option.splits jsval.splits)

lemma to_content_object:
  "to_content (JObj ps) =
     Inr \<lparr>role = (if map_of ps ''role'' = Some (JStr ''ai'') then ''model'' else ''user''),
          parts = [js_or (map_of ps ''text'') (map_of ps ''content'')]\<rparr>"
  by (simp add: to_content_def strict_eq_JStr js_or_def)

lemma map_history_objects:
  "map_history (map JObj pss) =
     Inr (map (\<lambda>ps. \<lparr>role = (if map_of ps ''role'' = Some (JStr ''ai'') then ''model'' else ''user''),
                      parts = [js_or (map_of ps ''text'') (map_of ps ''content'')]\<rparr>) pss)"
  by (induction pss) (simp_all add: to_content_object)

lemma loop_requests:
  "req \<in> set (snd (snd (generateResponse_loop provider opts prompt attempts m))) \<Longrightarrow>
   req_history req = opt_history opts \<and> req_prompt req = prompt"
proof (induction "length (apiKeys m) - attempts" arbitrary: attempts m)
  case 0
  then show ?case by (simp add: loop_done)
next
  case (Suc d)
  then have lt: "attempts < length (apiKeys m)" by simp
  let ?m1 = "m\<lparr>currentKeyIndex := Suc (currentKeyIndex m) mod length (apiKeys m)\<rparr>"
  have d: "d = length (apiKeys ?m1) - Suc attempts" using Suc.hyps(2) by simp
  have IH: "req_history req = opt_history opts \<and> req_prompt req = prompt"
    if "generateResponse_loop provider opts prompt (Suc attempts) ?m1 = (r, m', reqs)"
      and "req \<in> set reqs" for r m' reqs
    using Suc.hyps(1) [OF d] that by simp
  from Suc.prems lt show ?case
    apply (subst (asm) generateResponse_loop.simps)
    apply (auto simp: Let_def make_request_def split: sum.splits if_splits prod.splits dest: IH)
    done
qed

lemma snd_snd_api_case:
  "snd (snd (case x of
               (Inl e, m', reqs) \<Rightarrow> (f e, m', reqs)
             | (Inr t, m', reqs) \<Rightarrow> if c t then (a t, m', reqs) else (b t, m', reqs)))
     = snd (snd x)"
  by (auto split: prod.splits sum.splits)

lemma callGeminiAPI_requests:
  assumes "map_history h = Inr hist"
  shows "snd (snd (callGeminiAPI p message mode h m))
           = snd (snd (generateResponse (nth_attempt p)
                  \<lparr>opt_history = hist, opt_systemInstruction = Some (getSystemPrompt mode),
                   opt_modelName = Some (if mode = ''Coder'' then MODELS_CODER else MODELS_DEFAULT)\<rparr>
                  message m))"
  unfolding callGeminiAPI_def Let_def assms sum.case snd_snd_api_case ..

text \<open>
  C3, as stated, fails: the local role that becomes the provider's \<open>model\<close> is spelled
  \<open>ai\<close>. A message whose role is \<open>assistant\<close> is sent with the role \<open>user\<close>.
\<close>

theorem assistant_role_counterexample:
  "map_history [JObj [(''role'', JStr ''assistant''), (''text'', JStr ''Hello'')]]
     = Inr [\<lparr>role = ''user'', parts = [Some (JStr ''Hello'')]\<rparr>]"
  by (simp add: to_content_def strict_eq_def js_or_def)

text \<open>
  C3, amended. For every history of message objects, the history that
  \<open>callGeminiAPI\<close> builds, and that every request it issues carries, has one entry per
  message, in order: the role \<open>ai\<close> becomes \<open>model\<close>, every other role (\<open>user\<close>,
  \<open>assistant\<close>, a missing one) becomes \<open>user\<close>, and the text is the message's \<open>text\<close>,
  or its \<open>content\<close> when \<open>text\<close> is missing or empty.
\<close>

theorem history_role_mapping:
  "map_history (map JObj pss)
     = Inr (map (\<lambda>ps. \<lparr>role = (if map_of ps ''role'' = Some (JStr ''ai'') then ''model'' else ''user''),
                        parts = [if truthy (map_of ps ''text'') then map_of ps ''text''
                                 else map_of ps ''content'']\<rparr>) pss)
   \<and> (\<forall>req \<in> set (snd (snd (callGeminiAPI p message mode (map JObj pss) m))).
         req_prompt req = message
         \<and> req_history req
             = map (\<lambda>ps. \<lparr>role = (if map_of ps ''role'' = Some (JStr ''ai'') then ''model'' else ''user''),
                            parts = [if truthy (map_of ps ''text'') then map_of ps ''text''
                                     else map_of ps ''content'']\<rparr>) pss)"
proof -
  have h: "map_history (map JObj pss)
     = Inr (map (\<lambda>ps. \<lparr>role = (if map_of ps ''role'' = Some (JStr ''ai'') then ''model'' else ''user''),
                        parts = [if truthy (map_of ps ''text'') then map_of ps ''text''
                                 else map_of ps ''content'']\<rparr>) pss)"
    by (simp add: map_history_objects js_or_def)
  show ?thesis
    using loop_requests
    unfolding callGeminiAPI_requests [OF h] generateResponse_def h
    by fastforce
qed

theorem history_role_mapping_witness:
  "map_history (map JObj [[(''role'', JStr ''user''), (''text'', JStr ''hi'')],
                          [(''role'', JStr ''ai''), (''text'', JStr ''hello'')]])
     = Inr [\<lparr>role = ''user'', parts = [Some (JStr ''hi'')]\<rparr>,
            \<lparr>role = ''model'', parts = [Some (JStr ''hello'')]\<rparr>]"
  using history_role_mapping
    [of "[[(''role'', JStr ''user''), (''text'', JStr ''hi'')],
          [(''role'', JStr ''ai''), (''text'', JStr ''hello'')]]"]
  by simp

section \<open>Conversation Orchestrator: the claims\<close>

lemma getDailyUsage_store:
  "getDailyUsage now ls = (u, ls1) \<Longrightarrow> ls1 = ls \<or> u = fresh_usage now"
  by (auto simp: getDailyUsage_def getDailyUsage_try_def Let_def
      split: sum.splits option.splits if_splits)

lemma limit_reached_no_write:
  assumes "isDailyLimitReached now ls = Inr (True, ls1)"
  shows "ls1 = ls"
proof -
  obtain u ls' where g: "getDailyUsage now ls = (u, ls')"
    by (cases "getDailyUsage now ls") auto
  with assms have l: "ls' = ls1" and ge: "\<exists>c. get_prop u ''count'' = Inr c \<and> js_ge_num now c MAX_DAILY_MESSAGES = Inr True"
    by (auto simp: isDailyLimitReached_def split: sum.splits)
  have "u \<noteq> fresh_usage now"
    using ge by (auto simp: fresh_usage_def js_ge_num_def MAX_DAILY_MESSAGES_def)
  with getDailyUsage_store [OF g] l show ?thesis by simp
qed

text \<open>
  C5, as stated, fails in its last part: a submission whose trimmed text is empty, and a
  submission made while an operation is in flight, are dropped without any notice.
\<close>

theorem rejection_notices_counterexample:
  "notices (handleSendMessage example_env ''Solance'' (Some 7) ''   '' example_world) = []
   \<and> notices (handleSendMessage example_env ''Solance'' (Some 7) ''hi''
        (example_world\<lparr>ui := idle_ui\<lparr>isTyping := True\<rparr>\<rparr>)) = []"
  by code_simp

text \<open>
  C5, amended. If the trimmed text is empty, or an operation is in flight
  (\<open>isTyping\<close>), or the daily limit is reached, \<open>handleSendMessage\<close> changes no state:
  no message is appended, the usage is not incremented, nothing is written to the store,
  no request is issued. Only the rejection for the daily limit raises a notice (its only
  effect); the other two return silently.
\<close>

theorem rejected_send_changes_nothing:
  "(trim txt = [] \<or> isTyping (ui w) \<longrightarrow>
      handleSendMessage env activeMode currentChatId txt w
        = \<lparr>after = w, notices = [], requests = [], api = None, thrown = None\<rparr>)
   \<and> (trim txt \<noteq> [] \<and> \<not> isTyping (ui w)
        \<and> isDailyLimitReached (clock_at_send env) (storage w) = Inr (True, ls1) \<longrightarrow>
      ls1 = storage w
      \<and> handleSendMessage env activeMode currentChatId txt w
        = \<lparr>after = w\<lparr>ui := (ui w)\<lparr>notification := Some LIMIT_NOTICE\<rparr>\<rparr>,
           notices = [LIMIT_NOTICE], requests = [], api = None, thrown = None\<rparr>)"
proof -
  have a: "trim txt = [] \<or> isTyping (ui w) \<longrightarrow>
      handleSendMessage env activeMode currentChatId txt w
        = \<lparr>after = w, notices = [], requests = [], api = None, thrown = None\<rparr>"
    by (simp add: handleSendMessage_def)
  have b: "ls1 = storage w
      \<and> handleSendMessage env activeMode currentChatId txt w
        = \<lparr>after = w\<lparr>ui := (ui w)\<lparr>notification := Some LIMIT_NOTICE\<rparr>\<rparr>,
           notices = [LIMIT_NOTICE], requests = [], api = None, thrown = None\<rparr>"
    if "trim txt \<noteq> []" "\<not> isTyping (ui w)"
      "isDailyLimitReached (clock_at_send env) (storage w) = Inr (True, ls1)"
  proof -
    from limit_reached_no_write [OF that(3)] have eq: "ls1 = storage w" .
    with that show ?thesis
      by (simp add: handleSendMessage_def)
  qed
  from a b show ?thesis by blast
qed



theorem rejected_send_changes_nothing_witness:
  "trim ''   '' = []
   \<and> handleSendMessage example_env ''Solance'' (Some 7) ''   '' example_world
       = \<lparr>after = example_world, notices = [], requests = [], api = None, thrown = None\<rparr>
   \<and> trim [CHR 0xA0, CHR 0x09] = []
   \<and> handleSendMessage example_env ''Solance'' (Some 7) [CHR 0xA0, CHR 0x09] example_world
       = \<lparr>after = example_world, notices = [], requests = [], api = None, thrown = None\<rparr>
   \<and> isDailyLimitReached tuesday full_store = Inr (True, full_store)
   \<and> handleSendMessage example_env ''Solance'' (Some 7) ''hi'' (example_world\<lparr>storage := full_store\<rparr>)
       = \<lparr>after = example_world\<lparr>storage := full_store,
                                   ui := idle_ui\<lparr>notification := Some LIMIT_NOTICE\<rparr>\<rparr>,
          notices = [LIMIT_NOTICE], requests = [], api = None, thrown = None\<rparr>"
proof -
  have t: "trim ''   '' = []" and t': "trim ''hi'' \<noteq> []"
    and t'': "trim [CHR 0xA0, CHR 0x09] = []"
    by (simp_all add: trim_def is_space_def)
  have i: "items full_store DAILY_USAGE
       = Some (Ser (JObj [(''count'', JNum 25), (''date'', JStr ''2026-11-03'')]))"
    by (simp add: full_store_def)
  have u: "getDailyUsage tuesday full_store
             = (JObj [(''count'', JNum 25), (''date'', JStr ''2026-11-03'')], full_store)"
    using i by (simp add: getDailyUsage_current today_tuesday full_store_def)
  have l: "isDailyLimitReached tuesday full_store = Inr (True, full_store)"
    by (simp add: isDailyLimitReached_def u js_ge_num_def MAX_DAILY_MESSAGES_def)
  have s: "isTyping (ui example_world) = False" "clock_at_send example_env = tuesday"
    "ui example_world = idle_ui"
    by (simp_all add: example_world_def idle_ui_def example_env_def)
  show ?thesis
    using rejected_send_changes_nothing [of "''   ''" example_world example_env "''Solance''" "Some 7" full_store]
      rejected_send_changes_nothing [of "[CHR 0xA0, CHR 0x09]" example_world example_env "''Solance''" "Some 7" full_store]
      rejected_send_changes_nothing [of "''hi''" "example_world\<lparr>storage := full_store\<rparr>" example_env "''Solance''" "Some 7" full_store]
      t t' t'' l s
    by simp
qed

lemma handleSendMessage_call:
  assumes "api (handleSendMessage env activeMode currentChatId txt w) = Some result"
  obtains ls1 ls2 newUsage ls3 m' reqs where
    "trim txt \<noteq> []" "\<not> isTyping (ui w)"
    "isDailyLimitReached (clock_at_send env) (storage w) = Inr (False, ls1)"
    "persist (clock_at_send env) currentChatId
       (messages (ui w) @ [userMessage (clock_at_send env) txt]) ls1 = Inr ls2"
    "incrementDailyUsage (clock_at_send env) ls2 = (newUsage, ls3)"
    "callGeminiAPI (the_provider env) (trim txt) activeMode (messages (ui w)) (geminiManager w)
       = (result, m', reqs)"
    "handleSendMessage env activeMode currentChatId txt w
       = on_result env currentChatId (messages (ui w) @ [userMessage (clock_at_send env) txt]) result reqs
           (w\<lparr>storage := ls3, geminiManager := m',
              ui := (ui w)\<lparr>messages := messages (ui w) @ [userMessage (clock_at_send env) txt],
                           inputValue := [], isTyping := True, notification := None,
                           abortControllerRef := Some False, dailyUsage := newUsage\<rparr>\<rparr>)"
proof -
  have api_on_result: "api (on_result env c ms r rs v) = Some r" for c ms r rs v
    by (simp add: on_result_def Let_def split: sum.splits)
  from assms have t: "trim txt \<noteq> []" "\<not> isTyping (ui w)"
    by (auto simp: handleSendMessage_def split: if_splits)
  from assms t obtain b ls1 where l: "isDailyLimitReached (clock_at_send env) (storage w) = Inr (b, ls1)"
    by (cases "isDailyLimitReached (clock_at_send env) (storage w)")
       (auto simp: handleSendMessage_def)
  from assms t l have b: "\<not> b"
    by (cases b) (auto simp: handleSendMessage_def)
  let ?ms = "messages (ui w) @ [userMessage (clock_at_send env) txt]"
  from assms t l b obtain ls2 where p: "persist (clock_at_send env) currentChatId ?ms ls1 = Inr ls2"
    by (cases "persist (clock_at_send env) currentChatId ?ms ls1")
       (auto simp: handleSendMessage_def Let_def)
  obtain newUsage ls3 where i: "incrementDailyUsage (clock_at_send env) ls2 = (newUsage, ls3)"
    by (cases "incrementDailyUsage (clock_at_send env) ls2") auto
  obtain r m' reqs where c: "callGeminiAPI (the_provider env) (trim txt) activeMode (messages (ui w))
       (geminiManager w) = (r, m', reqs)"
    by (cases "callGeminiAPI (the_provider env) (trim txt) activeMode (messages (ui w)) (geminiManager w)")
       auto
  have h: "handleSendMessage env activeMode currentChatId txt w
       = on_result env currentChatId ?ms r reqs
           (w\<lparr>storage := ls3, geminiManager := m',
              ui := (ui w)\<lparr>messages := ?ms, inputValue := [], isTyping := True, notification := None,
                           abortControllerRef := Some False, dailyUsage := newUsage\<rparr>\<rparr>)"
    using t l b p i c by (simp add: handleSendMessage_def Let_def)
  with assms have r: "r = result" by (simp add: api_on_result)
  from l b have l': "isDailyLimitReached (clock_at_send env) (storage w) = Inr (False, ls1)"
    by simp
  show ?thesis
    by (rule that [OF t l' p i c [unfolded r] h [unfolded r]])
qed

lemma callGeminiAPI_cancelled:
  assumes wf: "currentKeyIndex m < length (apiKeys m)"
      and call: "callGeminiAPI p message mode h m = (result, m', reqs)"
      and cancelled: "isCancelled result"
  shows "m' = rotated m (length reqs - 1)
       \<and> (reqs \<noteq> [] \<longrightarrow> req_keyIndex (last reqs) = currentKeyIndex m')
       \<and> (\<forall>k. Suc k < length reqs \<longrightarrow> rotates (nth_attempt p k))
       \<and> length reqs \<le> length (apiKeys m)"
proof (cases "map_history h")
  case (Inl e)
  with call wf show ?thesis
    by (simp add: callGeminiAPI_def Let_def rotated_0)
next
  case (Inr hist)
  define opts where "opts = \<lparr>opt_history = hist, opt_systemInstruction = Some (getSystemPrompt mode),
        opt_modelName = Some (if mode = ''Coder'' then MODELS_CODER else MODELS_DEFAULT)\<rparr>"
  obtain r m1 reqs1 where g: "generateResponse (nth_attempt p) opts message m = (r, m1, reqs1)"
    by (cases "generateResponse (nth_attempt p) opts message m") auto
  have call': "(result, m', reqs) =
      (case (r, m1, reqs1) of
         (Inl e, m', reqs) \<Rightarrow> (api_catch p e, m', reqs)
       | (Inr text, m', reqs) \<Rightarrow>
           if text = FALLBACK
           then (\<lparr>success = False, res_text = text, modelUsed = None, isCancelled = False\<rparr>, m', reqs)
           else (\<lparr>success = True, res_text = text,
                  modelUsed = Some (if mode = ''Coder'' then MODELS_CODER else MODELS_DEFAULT),
                  isCancelled = False\<rparr>, m', reqs))"
    using call g unfolding callGeminiAPI_def Let_def Inr sum.case opts_def by simp
  from call' cancelled obtain e where r: "r = Inl e" and m': "m' = m1" and reqs: "reqs = reqs1"
    by (cases r) (auto split: if_splits)
  show ?thesis
  proof (rule generateResponse_cases [OF wf, of "nth_attempt p" opts message])
    assume "generateResponse (nth_attempt p) opts message m =
         (Inr FALLBACK, m, map (\<lambda>i. make_request (rotated m i) opts message) [0..<length (apiKeys m)])"
    with g r show ?thesis by simp
  next
    fix j
    assume j: "j < length (apiKeys m)" and before: "\<forall>i<j. rotates (nth_attempt p i)"
      and eq: "generateResponse (nth_attempt p) opts message m =
         (try_body (nth_attempt p j), rotated m j,
          map (\<lambda>i. make_request (rotated m i) opts message) [0..<Suc j])"
    from eq g m' reqs have 1: "m' = rotated m j"
      and 2: "reqs = map (\<lambda>i. make_request (rotated m i) opts message) [0..<Suc j]"
      by simp_all
    from 2 have len: "length reqs = Suc j" by simp
    from 2 have "last reqs = make_request (rotated m j) opts message"
      by simp
    then have 3: "req_keyIndex (last reqs) = currentKeyIndex m'"
      using 1 by (simp add: make_request_def)
    show ?thesis
      using 1 3 len before j by simp
  qed
qed


text \<open>
  C7, as stated, fails in two respects. With the cursor on the second of three keys, a
  send whose first attempt fails with a 503 and whose second attempt is cancelled ends
  cancelled, with the cursor advanced to the third key (by the failed attempt, before the
  cancellation), and with one message more in the conversation: the user's, appended
  before the call.
\<close>

theorem cancelled_send_counterexample:
  "map_option isCancelled (api (handleSendMessage example_env ''Solance'' (Some 7) ''hi'' example_world))
     = Some True
   \<and> currentKeyIndex (geminiManager example_world) = 1
   \<and> currentKeyIndex (geminiManager (after (handleSendMessage example_env ''Solance'' (Some 7) ''hi'' example_world))) = 2
   \<and> length (messages (ui example_world)) = 0
   \<and> length (messages (ui (after (handleSendMessage example_env ''Solance'' (Some 7) ''hi'' example_world)))) = 1"
  by code_simp

text \<open>
  C7, amended. When a send ends cancelled, nothing is appended, written or notified
  after the call: the conversation holds the user message appended before the call and no
  more, the usage record is as \<open>incrementDailyUsage\<close> left it before the call (no refund),
  and the cancelled attempt does not advance the cursor: the cursor stays on the key of
  the cancelled attempt, which is the entry key unless earlier attempts of the same call
  failed and rotated it.
\<close>

theorem cancelled_send_keeps_state:
  assumes wf: "currentKeyIndex (geminiManager w) < length (apiKeys (geminiManager w))"
      and call: "api (handleSendMessage env activeMode currentChatId txt w) = Some result"
      and cancelled: "isCancelled result"
  shows "messages (ui (after (handleSendMessage env activeMode currentChatId txt w)))
           = messages (ui w) @ [userMessage (clock_at_send env) txt]
       \<and> notices (handleSendMessage env activeMode currentChatId txt w) = []
       \<and> thrown (handleSendMessage env activeMode currentChatId txt w) = None
       \<and> (\<exists>ls1 ls2.
             isDailyLimitReached (clock_at_send env) (storage w) = Inr (False, ls1)
           \<and> persist (clock_at_send env) currentChatId
                (messages (ui w) @ [userMessage (clock_at_send env) txt]) ls1 = Inr ls2
           \<and> storage (after (handleSendMessage env activeMode currentChatId txt w))
                = snd (incrementDailyUsage (clock_at_send env) ls2)
           \<and> dailyUsage (ui (after (handleSendMessage env activeMode currentChatId txt w)))
                = fst (incrementDailyUsage (clock_at_send env) ls2))
       \<and> geminiManager (after (handleSendMessage env activeMode currentChatId txt w))
           = rotated (geminiManager w)
               (length (requests (handleSendMessage env activeMode currentChatId txt w)) - 1)
       \<and> (requests (handleSendMessage env activeMode currentChatId txt w) \<noteq> [] \<longrightarrow>
            req_keyIndex (last (requests (handleSendMessage env activeMode currentChatId txt w)))
              = currentKeyIndex (geminiManager (after (handleSendMessage env activeMode currentChatId txt w))))
       \<and> (length (requests (handleSendMessage env activeMode currentChatId txt w)) \<le> 1 \<longrightarrow>
            geminiManager (after (handleSendMessage env activeMode currentChatId txt w)) = geminiManager w)
       \<and> (\<forall>k. Suc k < length (requests (handleSendMessage env activeMode currentChatId txt w)) \<longrightarrow>
              rotates (nth_attempt (the_provider env) k))"
proof (rule handleSendMessage_call [OF call])
  fix ls1 ls2 newUsage ls3 m' reqs
  let ?ms = "messages (ui w) @ [userMessage (clock_at_send env) txt]"
  assume l: "isDailyLimitReached (clock_at_send env) (storage w) = Inr (False, ls1)"
    and p: "persist (clock_at_send env) currentChatId ?ms ls1 = Inr ls2"
    and i: "incrementDailyUsage (clock_at_send env) ls2 = (newUsage, ls3)"
    and c: "callGeminiAPI (the_provider env) (trim txt) activeMode (messages (ui w)) (geminiManager w)
       = (result, m', reqs)"
    and h: "handleSendMessage env activeMode currentChatId txt w
       = on_result env currentChatId ?ms result reqs
           (w\<lparr>storage := ls3, geminiManager := m',
              ui := (ui w)\<lparr>messages := ?ms, inputValue := [], isTyping := True, notification := None,
                           abortControllerRef := Some False, dailyUsage := newUsage\<rparr>\<rparr>)"
  note k = callGeminiAPI_cancelled [OF wf c cancelled]
  have out: "handleSendMessage env activeMode currentChatId txt w
       = \<lparr>after = w\<lparr>storage := ls3, geminiManager := m',
              ui := (ui w)\<lparr>messages := ?ms, inputValue := [], isTyping := False, notification := None,
                           abortControllerRef := None, dailyUsage := newUsage\<rparr>\<rparr>,
          notices = [], requests = reqs, api = Some result, thrown = None\<rparr>"
    unfolding h using cancelled by (simp add: on_result_def)
  have usage: "\<exists>ls1 ls2.
             isDailyLimitReached (clock_at_send env) (storage w) = Inr (False, ls1)
           \<and> persist (clock_at_send env) currentChatId ?ms ls1 = Inr ls2
           \<and> ls3 = snd (incrementDailyUsage (clock_at_send env) ls2)
           \<and> newUsage = fst (incrementDailyUsage (clock_at_send env) ls2)"
    using l p i by auto
  have same: "m' = geminiManager w" if "length reqs \<le> 1"
  proof -
    from that have "length reqs - 1 = 0" by simp
    with k wf show ?thesis by (simp add: rotated_0)
  qed
  show ?thesis
    unfolding out using k usage same by simp
qed



theorem cancelled_send_keeps_state_witness:
  "currentKeyIndex (geminiManager example_world) < length (apiKeys (geminiManager example_world))
   \<and> api (handleSendMessage aborted_env ''Solance'' (Some 7) ''hi'' example_world) = Some cancelled_result
   \<and> isCancelled cancelled_result
   \<and> messages (ui (after (handleSendMessage aborted_env ''Solance'' (Some 7) ''hi'' example_world)))
       = [userMessage tuesday ''hi'']
   \<and> notices (handleSendMessage aborted_env ''Solance'' (Some 7) ''hi'' example_world) = []
   \<and> geminiManager (after (handleSendMessage aborted_env ''Solance'' (Some 7) ''hi'' example_world))
       = example_manager
   \<and> items (storage (after (handleSendMessage aborted_env ''Solance'' (Some 7) ''hi'' example_world)))
        DAILY_USAGE
       = Some (Ser (JObj [(''count'', JNum 25), (''date'', JStr ''2026-11-03'')]))"
proof -
  have wf: "currentKeyIndex (geminiManager example_world) < length (apiKeys (geminiManager example_world))"
    by (simp add: example_world_def example_manager_def)
  have call: "api (handleSendMessage aborted_env ''Solance'' (Some 7) ''hi'' example_world)
      = Some cancelled_result"
    by code_simp
  have c: "isCancelled cancelled_result"
    by (simp add: cancelled_result_def)
  have n: "length (requests (handleSendMessage aborted_env ''Solance'' (Some 7) ''hi'' example_world)) = 1"
    by code_simp
  have u: "items (storage (after (handleSendMessage aborted_env ''Solance'' (Some 7) ''hi'' example_world)))
        DAILY_USAGE
       = Some (Ser (JObj [(''count'', JNum 25), (''date'', JStr ''2026-11-03'')]))"
    by code_simp
  have m: "geminiManager example_world = example_manager" "messages (ui example_world) = []"
    "clock_at_send aborted_env = tuesday"
    by (simp_all add: example_world_def idle_ui_def aborted_env_def)
  show ?thesis
    using cancelled_send_keeps_state [OF wf call c] wf call c u n m
    by (simp add: rotated_0)
qed


section \<open>Conversations in the store: the claim\<close>

lemma is_objectE: "is_object v \<Longrightarrow> (\<And>ps. v = JObj ps \<Longrightarrow> P) \<Longrightarrow> P"
  by (cases v) (simp_all add: is_object_def)

lemma is_message_object: "is_message m \<Longrightarrow> is_object m"
  by (cases m) (simp_all add: is_message_def is_object_def)

lemma find_id_findIndex:
  "find_id chatId cs = Inr (Some c) \<Longrightarrow>
   \<exists>i<length cs. findIndex_id chatId cs k = Inr (Some (k + i)) \<and> cs ! i = c
      \<and> get_prop c ''id'' = Inr (Some (JNum chatId))
      \<and> (\<forall>j<i. \<exists>v. get_prop (cs ! j) ''id'' = Inr v \<and> v \<noteq> Some (JNum chatId))"
proof (induction cs arbitrary: k)
  case Nil
  then show ?case by simp
next
  case (Cons a cs)
  from Cons.prems obtain v where v: "get_prop a ''id'' = Inr v"
    by (cases "get_prop a ''id''") auto
  show ?case
  proof (cases "v = Some (JNum chatId)")
    case True
    with v Cons.prems have "a = c" by (simp add: strict_eq_JNum)
    with v True show ?thesis by (auto simp: strict_eq_JNum)
  next
    case False
    with v Cons.prems have "find_id chatId cs = Inr (Some c)" by (simp add: strict_eq_JNum)
    from Cons.IH [OF this, of "Suc k"] obtain i where i: "i < length cs"
      "findIndex_id chatId cs (Suc k) = Inr (Some (Suc k + i))" "cs ! i = c"
      "get_prop c ''id'' = Inr (Some (JNum chatId))"
      "\<forall>j<i. \<exists>v. get_prop (cs ! j) ''id'' = Inr v \<and> v \<noteq> Some (JNum chatId)"
      by blast
    have "\<forall>j<Suc i. \<exists>v. get_prop ((a # cs) ! j) ''id'' = Inr v \<and> v \<noteq> Some (JNum chatId)"
      using i(5) v False by (auto simp: nth_Cons split: nat.splits)
    with i v False show ?thesis
      by (intro exI [of _ "Suc i"]) (simp add: strict_eq_JNum)
  qed
qed

lemma find_id_update:
  "i < length cs \<Longrightarrow>
   \<forall>j<i. \<exists>v. get_prop (cs ! j) ''id'' = Inr v \<and> v \<noteq> Some (JNum chatId) \<Longrightarrow>
   get_prop c' ''id'' = Inr (Some (JNum chatId)) \<Longrightarrow>
   find_id chatId (cs[i := c']) = Inr (Some c')"
proof (induction cs arbitrary: i)
  case Nil
  then show ?case by simp
next
  case (Cons a cs)
  show ?case
  proof (cases i)
    case 0
    with Cons.prems show ?thesis by (simp add: strict_eq_JNum)
  next
    case (Suc n)
    from Cons.prems(2) Suc obtain v where v: "get_prop a ''id'' = Inr v" "v \<noteq> Some (JNum chatId)"
      by fastforce
    have "\<forall>j<n. \<exists>v. get_prop (cs ! j) ''id'' = Inr v \<and> v \<noteq> Some (JNum chatId)"
      using Cons.prems(2) Suc by fastforce
    with Cons.IH [of n] Cons.prems Suc have "find_id chatId (cs[n := c']) = Inr (Some c')"
      by simp
    with v Suc show ?thesis by (simp add: strict_eq_JNum)
  qed
qed

lemma get_prop_to_json:
  "get_prop (to_json (JObj ps)) k = Inr (map_option to_json (map_of ps k))"
  by (simp add: map_of_map [unfolded o_def, THEN fun_cong])

lemma to_json_eq_JNum: "to_json v = JNum n \<longleftrightarrow> v = JNum n"
  by (cases v) auto

lemma find_id_to_json:
  "list_all is_object cs \<Longrightarrow>
   find_id chatId cs = Inr r \<Longrightarrow>
   find_id chatId (map to_json cs) = Inr (map_option to_json r)"
proof (induction cs)
  case Nil
  then show ?case by simp
next
  case (Cons a cs)
  from Cons.prems(1) obtain ps where a: "a = JObj ps"
    by (auto elim: is_objectE)
  have eq: "(map_option to_json (map_of ps ''id'') = Some (JNum chatId))
            = (map_of ps ''id'' = Some (JNum chatId))"
    by (cases "map_of ps ''id''") (auto simp: to_json_eq_JNum)
  show ?case
  proof (cases "map_of ps ''id'' = Some (JNum chatId)")
    case True
    with Cons.prems a eq show ?thesis
      using get_prop_to_json [of ps "''id''"] by (auto simp: strict_eq_JNum simp del: to_json.simps)
  next
    case False
    with Cons.prems a eq Cons.IH show ?thesis
      using get_prop_to_json [of ps "''id''"] by (auto simp: strict_eq_JNum simp del: to_json.simps)
  qed
qed


lemma find_user_messages:
  "list_all is_message ms \<Longrightarrow>
   find_user ms = Inr None \<or> (\<exists>m. find_user ms = Inr (Some m) \<and> is_message m)"
proof (induction ms)
  case Nil
  then show ?case by simp
next
  case (Cons a ms)
  then obtain ps where "a = JObj ps" by (auto dest: is_message_object elim: is_objectE)
  with Cons show ?case by auto
qed

lemma slice0_message_text:
  assumes "is_message (JObj ps)"
  shows "\<exists>s. slice0 (js_or (if truthy (map_of ps ''text'') then map_of ps ''text''
                             else map_of ps ''content'') (Some (JStr []))) 50 = Inr (JStr s)"
  using assms
  by (auto simp: is_message_def js_or_def split: option.splits jsval.splits)

lemma update_title_object:
  assumes t: "map_of ps ''title'' = Some (JStr t)"
      and ms: "list_all is_message msgs"
  shows "\<exists>ps'. update_title now msgs (JObj ps) = Inr (JObj ps')
           \<and> (\<forall>k. k \<noteq> ''title'' \<longrightarrow> map_of ps' k = map_of ps k)"
proof (cases "t \<noteq> [] \<and> take (length ''New Chat'') t \<noteq> ''New Chat''")
  case True
  with t show ?thesis by (auto simp: update_title_def)
next
  case False
  then have placeholder: "(if \<not> truthy (Some (JStr t)) then Inr True else startsWith (Some (JStr t)) ''New Chat'')
      = Inr True"
    by auto
  from find_user_messages [OF ms] show ?thesis
  proof
    assume "find_user msgs = Inr None"
    with t placeholder show ?thesis by (simp add: update_title_def)
  next
    assume "\<exists>m. find_user msgs = Inr (Some m) \<and> is_message m"
    then obtain m where m0: "find_user msgs = Inr (Some m)" "is_message m"
      by blast
    then obtain qs where "m = JObj qs"
      by (cases m) (simp_all add: is_message_def)
    with m0 have m: "find_user msgs = Inr (Some m)" "is_message m" "m = JObj qs"
      by simp_all
    from slice0_message_text [of qs] m obtain s where
      s: "slice0 (js_or (if truthy (map_of qs ''text'') then map_of qs ''text''
                             else map_of qs ''content'') (Some (JStr []))) 50 = Inr (JStr s)"
      by auto
    have tc: "(if truthy (map_of qs ''text'') then Inr (map_of qs ''text'') else get_prop (JObj qs) ''content'')
         = Inr (if truthy (map_of qs ''text'') then map_of qs ''text'' else map_of qs ''content'')"
      by simp
    show ?thesis
      using t placeholder m(1,3) s
      unfolding update_title_def
      by (simp add: tc update_conv' del: get_prop.simps(2) split del: if_split)
         (auto simp: update_conv')
  qed
qed


lemma is_message_to_json: "list_all is_message ms \<Longrightarrow> map to_json ms = ms"
  by (induction ms) (auto simp: is_message_def split: jsval.splits)

lemma list_all_update: "list_all P xs \<Longrightarrow> P x \<Longrightarrow> list_all P (xs[i := x])"
  by (induction xs arbitrary: i) (auto split: nat.splits)

text \<open>
  C8. Let the store be available and hold a list of conversation objects, let \<open>C\<close> be the
  conversation found under \<open>chatId\<close>, with a title and the message list \<open>ms\<close>, and let
  \<open>M\<close> be a message. Persisting \<open>ms\<close> with \<open>M\<close> appended through
  \<open>updateChatMessages\<close> succeeds, and reloading through \<open>getChatById\<close> yields a
  conversation whose message list is \<open>ms\<close> followed by \<open>M\<close>: its last element is \<open>M\<close>.
\<close>

theorem append_persist_reload:
  assumes r: "can_read ls" and w: "can_write ls"
      and h: "items ls CHAT_HISTORY = Some (Ser (JArr chats))"
      and objs: "list_all is_object chats"
      and present: "getChatById chatId ls = Inr (Some C)"
      and title: "get_prop C ''title'' = Inr (Some (JStr t))"
      and msgs: "get_prop C ''messages'' = Inr (Some (JArr ms))"
      and wf: "list_all is_message ms" "is_message M"
  shows "\<exists>ls' C'. updateChatMessages now chatId (ms @ [M]) ls = Inr ls'
           \<and> getChatById chatId ls' = Inr (Some C')
           \<and> get_prop C' ''messages'' = Inr (Some (JArr (ms @ [M])))
           \<and> last (ms @ [M]) = M"
proof -
  let ?new = "ms @ [M]"
  have hist: "getChatHistory ls = JArr chats"
    using r h by (simp add: getChatHistory_cases)
  with present have found: "find_id chatId chats = Inr (Some C)"
    by (simp add: getChatById_def)
  from find_id_findIndex [OF found, of 0] obtain i where i: "i < length chats"
    and idx: "findIndex_id chatId chats 0 = Inr (Some i)" and at: "chats ! i = C"
    and cid: "get_prop C ''id'' = Inr (Some (JNum chatId))"
    and before: "\<forall>j<i. \<exists>v. get_prop (chats ! j) ''id'' = Inr v \<and> v \<noteq> Some (JNum chatId)"
    by auto
  from objs i at have "is_object C"
    by (auto simp: list_all_length)
  then obtain ps where C: "C = JObj ps"
    by (rule is_objectE)
  let ?ps1 = "AList.update ''messages'' (JArr ?new) ps"
  have t1: "map_of ?ps1 ''title'' = Some (JStr t)"
    using title C by (simp add: update_conv')
  have new_wf: "list_all is_message ?new"
    using wf by simp
  from update_title_object [OF t1 new_wf, of now] obtain ps' where
    ut: "update_title now ?new (JObj ?ps1) = Inr (JObj ps')"
    and same: "\<forall>k. k \<noteq> ''title'' \<longrightarrow> map_of ps' k = map_of ?ps1 k"
    by blast
  have id': "get_prop (JObj ps') ''id'' = Inr (Some (JNum chatId))"
    using same cid C by (simp add: update_conv')
  have msgs': "map_of ps' ''messages'' = Some (JArr ?new)"
    using same by (simp add: update_conv')
  let ?chats' = "chats[i := JObj ps']"
  let ?ls' = "ls\<lparr>items := (items ls)(CHAT_HISTORY \<mapsto> Ser (JArr (map to_json ?chats')))\<rparr>"
  have upd: "updateChatMessages now chatId ?new ls = Inr ?ls'"
    using hist idx at C ut w
    by (simp add: updateChatMessages_def saveChatHistory_cases JSON_stringify_def)
  have hist': "getChatHistory ?ls' = JArr (map to_json ?chats')"
    using r by (simp add: getChatHistory_cases)
  have "find_id chatId ?chats' = Inr (Some (JObj ps'))"
    using i before id' by (rule find_id_update)
  moreover have "list_all is_object ?chats'"
    using objs by (rule list_all_update) (simp add: is_object_def)
  ultimately have "find_id chatId (map to_json ?chats') = Inr (map_option to_json (Some (JObj ps')))"
    by (rule find_id_to_json [rotated])
  then have reload: "getChatById chatId ?ls' = Inr (Some (to_json (JObj ps')))"
    using hist' by (simp add: getChatById_def del: to_json.simps)
  have "get_prop (to_json (JObj ps')) ''messages'' = Inr (Some (JArr ?new))"
    using msgs' is_message_to_json [OF new_wf]
    by (simp add: get_prop_to_json del: to_json.simps(3)) 
  with upd reload show ?thesis
    by (intro exI [of _ ?ls'] exI [of _ "to_json (JObj ps')"]) simp
qed

theorem append_persist_reload_witness:
  "can_read chat_store \<and> can_write chat_store
   \<and> items chat_store CHAT_HISTORY = Some (Ser (JArr [example_chat]))
   \<and> getChatById 7 chat_store = Inr (Some example_chat)
   \<and> get_prop example_chat ''messages'' = Inr (Some (JArr []))
   \<and> is_message (userMessage tuesday ''hi'')
   \<and> (\<exists>ls' C'. updateChatMessages tuesday 7 ([] @ [userMessage tuesday ''hi'']) chat_store = Inr ls'
          \<and> getChatById 7 ls' = Inr (Some C')
          \<and> get_prop C' ''messages'' = Inr (Some (JArr ([] @ [userMessage tuesday ''hi'']))))"
proof -
  have r: "can_read chat_store" and w: "can_write chat_store"
    by (simp_all add: chat_store_def)
  have h: "items chat_store CHAT_HISTORY = Some (Ser (JArr [example_chat]))"
    by (simp add: chat_store_def CHAT_HISTORY_def DAILY_USAGE_def)
  have objs: "list_all is_object [example_chat]"
    by (simp add: is_object_def example_chat_def)
  have present: "getChatById 7 chat_store = Inr (Some example_chat)"
    using r h by (simp add: getChatById_def getChatHistory_cases example_chat_def strict_eq_JNum)
  have title: "get_prop example_chat ''title'' = Inr (Some (JStr ''New Chat - Solance''))"
    and msgs: "get_prop example_chat ''messages'' = Inr (Some (JArr []))"
    by (simp_all add: example_chat_def)
  have ms: "list_all is_message []"
    by simp
  have M: "is_message (userMessage tuesday ''hi'')"
    by (simp add: is_message_def userMessage_def)
  show ?thesis
    using append_persist_reload [OF r w h objs present title msgs ms M, of tuesday] r w h present msgs M
    by simp
qed

end
